theory Spec2Isabelle
  imports Main "HOL-Library.Word"
begin

section \<open>Camera obstacle perception: the per-frame orchestrator\<close>

text \<open>
  A shallow embedding of \<^verbatim>\<open>modules/perception/camera/app/obstacle_camera_perception.cc\<close>:
  \<^verbatim>\<open>ObstacleCameraPerception::Init\<close>, \<^verbatim>\<open>GetCalibrationService\<close> and
  \<^verbatim>\<open>Perception\<close>. The algorithm plugins behind each stage are resolved by name at run
  time; they are function-valued fields of the plugin records below. Every call that leaves
  the translation unit is appended to a trace, so that which stage ran, in which order and
  on which state, is a property of the result.
\<close>

subsection \<open>Data that the orchestrator only moves around\<close>

text \<open>
  \<^verbatim>\<open>Eigen::Vector3d\<close> is three doubles. The orchestrator copies such vectors and never
  computes with them, so a vector is its bit pattern and equality is equality bit for bit.
\<close>

type_synonym Vector3d = "192 word"

typedecl Matrix3f    \<comment> \<open>\<^verbatim>\<open>Eigen::Matrix3f\<close>, a camera intrinsic matrix\<close>
typedecl Affine3d    \<comment> \<open>\<^verbatim>\<open>Eigen::Affine3d\<close>, the camera-to-world pose\<close>
typedecl LaneLines   \<comment> \<open>\<^verbatim>\<open>std::vector<base::LaneLine>\<close>\<close>
typedecl PointD      \<comment> \<open>a polygon vertex\<close>
typedecl BBox3D      \<comment> \<open>the 3D bounding geometry of an object (size, direction)\<close>
typedecl Geometry    \<comment> \<open>the corrected camera geometry kept by a calibration service\<close>
typedecl PluginState \<comment> \<open>the internal state of all stage plugins (tracks, networks, GPU)\<close>

subsection \<open>Ways to leave a function\<close>

datatype exn =
    OutOfRange        \<comment> \<open>\<^verbatim>\<open>std::out_of_range\<close> thrown by \<^verbatim>\<open>std::map::at\<close>\<close>
  | CheckFailed       \<comment> \<open>a failed \<^verbatim>\<open>CHECK\<close>, which aborts the process\<close>
  | NullDereference   \<comment> \<open>a call through a null pointer\<close>

datatype exit = Returned bool | Aborted exn

text \<open>
  A statement maps a state to the next one; \<open>None\<close> falls through to the next statement,
  \<open>Some e\<close> leaves the function. A block is a list of statements.
\<close>

type_synonym 's stmt = "'s \<Rightarrow> exit option \<times> 's"

fun run :: "'s stmt list \<Rightarrow> 's stmt" where
  "run [] s = (None, s)"
| "run (c # cs) s = (case c s of (None, s') \<Rightarrow> run cs s' | (Some e, s') \<Rightarrow> (Some e, s'))"

definition CHECK :: "bool \<Rightarrow> 's stmt" where
  "CHECK b s = (if b then None else Some (Aborted CheckFailed), s)"

definition deref :: "'a option \<Rightarrow> ('a \<Rightarrow> 's stmt) \<Rightarrow> 's stmt" where
  "deref p k s = (case p of None \<Rightarrow> (Some (Aborted NullDereference), s) | Some x \<Rightarrow> k x s)"

definition return :: "bool \<Rightarrow> 's stmt" where
  "return b s = (Some (Returned b), s)"

subsection \<open>Frames, objects and the world a frame lives in\<close>

text \<open>
  \<^verbatim>\<open>base::Object\<close>, with the fields this file names. Objects are held through
  \<^verbatim>\<open>shared_ptr\<close>; the model keeps them in a store and the frame holds addresses, so two
  list entries may share one object. An address outside the store stands for a null pointer.
\<close>

record Object =
  bbox3d :: BBox3D
  center :: Vector3d
  anchor_point :: Vector3d
  polygon :: "PointD list"
  camera_supplement_sensor_name :: string

text \<open>
  \<^verbatim>\<open>CameraFrame\<close>, with the fields this file names; \<open>data_provider_sensor_name\<close> is
  \<^verbatim>\<open>frame->data_provider->sensor_name()\<close>.
\<close>

record CameraFrame =
  data_provider_sensor_name :: string
  frame_id :: int
  camera_k_matrix :: Matrix3f
  calibration_service :: "nat option"
  lane_objects :: LaneLines
  detected_objects :: "nat list"
  tracked_objects :: "nat list"
  camera2world_pose :: Affine3d

text \<open>
  Modelled from the spec: the calibration service (\<^verbatim>\<open>BaseCalibrationService\<close> and its
  plugins) is not among the sources verified here. The spec gives it a long-lived state holding the corrected
  geometry, configured with one calibration-working sensor.
\<close>

record CalibrationService =
  calibrator_working_sensor_name :: string
  geometry :: Geometry

record World =
  frame :: CameraFrame
  objects :: "nat \<rightharpoonup> Object"
  services :: "nat \<Rightarrow> CalibrationService"
  plugins :: PluginState

type_synonym stage_fn = "World \<Rightarrow> bool \<times> World"

subsection \<open>Configuration (\<^verbatim>\<open>app::PerceptionParam\<close>)\<close>

record PluginParam =
  name :: string
  root_dir :: string
  config_file :: string

record DetectorParam =
  plugin_param :: PluginParam
  camera_name :: string

record LaneParam =
  lane_detector_param :: "PluginParam option"
  lane_postprocessor_param :: PluginParam

record CalibrationServiceParam =
  calibration_plugin_param :: PluginParam
  calibrator_method :: string

record DebugParam =
  track_out_file :: "string option"
  camera2world_out_file :: "string option"
  lane_out_dir :: "string option"
  calibration_out_dir :: "string option"
  detection_out_dir :: "string option"
  detect_feature_dir :: "string option"
  tracked_detection_out_dir :: "string option"

record PerceptionParam =
  gpu_id :: int
  detector_param :: "DetectorParam list"
  tracker_param :: "PluginParam option"
  transformer_param :: "PluginParam option"
  postprocessor_param :: "PluginParam option"
  feature_param :: "PluginParam option"
  lane_param :: "LaneParam option"
  calibration_service_param :: "CalibrationServiceParam option"
  debug_param_opt :: "DebugParam option"
  object_template_param :: "PluginParam option"

text \<open>Protobuf getters: an unset message reads as the default message, an unset string as the empty string.\<close>

definition default_DebugParam :: DebugParam where
  "default_DebugParam = \<lparr>track_out_file = None, camera2world_out_file = None, lane_out_dir = None,
     calibration_out_dir = None, detection_out_dir = None, detect_feature_dir = None,
     tracked_detection_out_dir = None\<rparr>"

definition has_debug_param :: "PerceptionParam \<Rightarrow> bool" where
  "has_debug_param p = (debug_param_opt p \<noteq> None)"

definition debug_param :: "PerceptionParam \<Rightarrow> DebugParam" where
  "debug_param p = (case debug_param_opt p of None \<Rightarrow> default_DebugParam | Some d \<Rightarrow> d)"

definition has :: "'a option \<Rightarrow> bool" where
  "has f = (f \<noteq> None)"

definition str :: "string option \<Rightarrow> string" where
  "str f = (case f of None \<Rightarrow> [] | Some x \<Rightarrow> x)"

definition default_PerceptionParam :: PerceptionParam where
  "default_PerceptionParam = \<lparr>gpu_id = 0, detector_param = [], tracker_param = None,
     transformer_param = None, postprocessor_param = None, feature_param = None,
     lane_param = None, calibration_service_param = None, debug_param_opt = None,
     object_template_param = None\<rparr>"

subsection \<open>Stage plugins\<close>

text \<open>
  \<^verbatim>\<open>base::BaseCameraModel\<close> as the three getters this file calls. Widths and heights are
  \<^verbatim>\<open>size_t\<close>; their conversion to the option structs' number types is not modelled.
\<close>

record CameraModel =
  get_width :: nat
  get_height :: nat
  get_intrinsic_params :: Matrix3f

text \<open>
  Every \<^verbatim>\<open>*InitOptions\<close> struct of the source is filled field by field from a
  default-constructed value. One record carries the union of the fields this file sets.
\<close>

record InitOptions =
  opt_root_dir :: string
  opt_conf_file :: string
  opt_gpu_id :: int
  base_camera_model :: "CameraModel option"
  image_width :: nat
  image_height :: nat
  detect_config_root :: string
  detect_config_name :: string
  opt_calibrator_working_sensor_name :: string
  name_intrinsic_map :: "string \<rightharpoonup> Matrix3f"
  opt_calibrator_method :: string

definition default_InitOptions :: InitOptions where
  "default_InitOptions = \<lparr>opt_root_dir = [], opt_conf_file = [], opt_gpu_id = 0,
     base_camera_model = None, image_width = 0, image_height = 0, detect_config_root = [],
     detect_config_name = [], opt_calibrator_working_sensor_name = [],
     name_intrinsic_map = Map.empty, opt_calibrator_method = []\<rparr>"

type_synonym init_fn = "InitOptions \<Rightarrow> PluginState \<Rightarrow> bool \<times> PluginState"

record BaseObstacleDetector =
  detector_Init :: init_fn
  Detect :: stage_fn

record BaseObstacleTracker =
  tracker_Init :: init_fn
  Predict :: stage_fn
  Associate2D :: stage_fn
  Associate3D :: stage_fn
  Track :: stage_fn

record BaseObstacleTransformer =
  transformer_Init :: init_fn
  Transform :: stage_fn

record BaseObstaclePostprocessor =
  postprocessor_Init :: init_fn
  Process :: "bool \<Rightarrow> stage_fn"
    \<comment> \<open>the argument is \<^verbatim>\<open>options.do_refinement_with_calibration_service\<close>\<close>

record BaseFeatureExtractor =
  extractor_Init :: init_fn
  Extract :: stage_fn

record BaseLaneDetector =
  lane_detector_Init :: init_fn
  lane_Detect :: stage_fn

record BaseLanePostprocessor =
  lane_postprocessor_Init :: init_fn
  Process2D :: stage_fn
  Process3D :: stage_fn

record ObjectTemplateManager =
  template_Init :: init_fn

subsection \<open>The pipeline object\<close>

text \<open>
  The data members of \<^verbatim>\<open>ObstacleCameraPerception\<close> that this file uses, \<open>this_x\<close> for the member \<^verbatim>\<open>x_\<close>. Smart pointers
  are options; \<open>this_calibration_service\<close> is the address of a service in the world. The
  two output streams are the path they were opened on, if any.
\<close>

record ObstacleCameraPerception =
  this_perception_param :: PerceptionParam
  this_name_intrinsic_map :: "string \<rightharpoonup> Matrix3f"
  this_name_detector_map :: "string \<rightharpoonup> BaseObstacleDetector option"
  this_tracker :: "BaseObstacleTracker option"
  this_transformer :: "BaseObstacleTransformer option"
  this_obstacle_postprocessor :: "BaseObstaclePostprocessor option"
  this_extractor :: "BaseFeatureExtractor option"
  this_lane_detector :: "BaseLaneDetector option"
  this_lane_postprocessor :: "BaseLanePostprocessor option"
  this_calibration_service :: "nat option"
  this_lane_calibration_working_sensor_name :: string
  this_object_template_manager :: "ObjectTemplateManager option"
  this_out_track :: "string option"
  this_out_pose :: "string option"

text \<open>A default-constructed pipeline object: what exists before \<^verbatim>\<open>Init\<close> has run.\<close>

definition constructed :: ObstacleCameraPerception where
  "constructed = \<lparr>this_perception_param = default_PerceptionParam, this_name_intrinsic_map = Map.empty,
     this_name_detector_map = Map.empty, this_tracker = None, this_transformer = None,
     this_obstacle_postprocessor = None, this_extractor = None, this_lane_detector = None,
     this_lane_postprocessor = None, this_calibration_service = None,
     this_lane_calibration_working_sensor_name = [], this_object_template_manager = None,
     this_out_track = None, this_out_pose = None\<rparr>"

subsection \<open>\<^verbatim>\<open>GetCalibrationService\<close>\<close>

text \<open>The out-parameter \<^verbatim>\<open>*calibration_service\<close> is the second component of the result.\<close>

definition GetCalibrationService :: "ObstacleCameraPerception \<Rightarrow> bool \<times> nat option" where
  "GetCalibrationService this = (True, this_calibration_service this)"

subsection \<open>The trace of a frame\<close>

datatype stage =
    LaneDetect | LaneProcess2D | CalibrationUpdate | LaneProcess3D
  | TrackerPredict | ObstacleDetect | FeatureExtract | TrackerAssociate2D
  | ObstacleTransform
  | ObstaclePostprocess bool  \<comment> \<open>with \<^verbatim>\<open>do_refinement_with_calibration_service\<close>\<close>
  | TrackerAssociate3D | TrackerTrack

text \<open>
  \<open>Call g w\<close>: stage \<open>g\<close> was invoked on world \<open>w\<close>. The debug writers get a flag or a
  stream, and a path that the source builds as directory, \<^verbatim>\<open>"/"\<close>, frame id,
  \<^verbatim>\<open>".txt"\<close>; the event keeps the directory and the frame id.
\<close>

datatype event =
    SetDeviceId int
  | Call stage World
  | WriteLanelines bool string int LaneLines
  | WriteCalibrationOutput bool string int
  | WriteDetections bool string int "nat list"
  | WriteDetectionsFrame bool string int
  | WriteCamera2World "string option" int Affine3d
  | WriteTracking "string option" int "nat list"

record PerceptionState =
  world :: World
  trace :: "event list"

definition emit :: "(World \<Rightarrow> event) \<Rightarrow> PerceptionState stmt" where
  "emit e s = (None, s\<lparr>trace := trace s @ [e (world s)]\<rparr>)"

subsection \<open>What the code outside this file may do\<close>

text \<open>
  Modelled from the spec: the stage implementations are not among the sources verified
  here. A stage gets the frame by pointer and may change any of it, the objects and its own
  state; that includes the frame's pointer to its calibration service, which
  \<^verbatim>\<open>Perception\<close> reads afresh after the call. The spec lets the Calibration State itself
  change in two ways only, its own update and the external
  \<^verbatim>\<open>SetCameraHeightAndPitch\<close>: whatever a stage returns, the services are as before the
  call.
\<close>

definition confine :: "World \<Rightarrow> World \<Rightarrow> World" where
  "confine w w' = w'\<lparr>services := services w\<rparr>"

definition invoke :: "stage \<Rightarrow> stage_fn \<Rightarrow> PerceptionState \<Rightarrow> bool \<times> PerceptionState" where
  "invoke g f s = (case f (world s) of (ok, w') \<Rightarrow>
     (ok, \<lparr>world = confine (world s) w', trace = trace s @ [Call g (world s)]\<rparr>))"

text \<open>\<^verbatim>\<open>if (!stage(...)) { AERROR << ...; return false; }\<close>\<close>

definition or_return_false :: "(PerceptionState \<Rightarrow> bool \<times> PerceptionState) \<Rightarrow> PerceptionState stmt" where
  "or_return_false c s = (case c s of (ok, s') \<Rightarrow> (if ok then None else Some (Returned False), s'))"

text \<open>
  Modelled from the spec: \<^verbatim>\<open>BaseCalibrationService::Update\<close> is not among the sources
  verified here. For a frame
  of the service's working sensor it recomputes the geometry from the frame's lane
  observations; for any other frame it is a refresh that changes nothing. The spec counts
  the update as a point of failure, so it reports a status. \<open>calibrate\<close> is the
  recomputation, which the spec leaves open.
\<close>

definition Update ::
  "(LaneLines \<Rightarrow> Geometry \<Rightarrow> bool \<times> Geometry) \<Rightarrow> CameraFrame \<Rightarrow> CalibrationService \<Rightarrow> bool \<times> CalibrationService" where
  "Update calibrate fr cs =
     (if data_provider_sensor_name fr = calibrator_working_sensor_name cs
      then (case calibrate (lane_objects fr) (geometry cs) of (ok, g) \<Rightarrow> (ok, cs\<lparr>geometry := g\<rparr>))
      else (True, cs))"

text \<open>
  Modelled from the spec: \<^verbatim>\<open>FillObjectPolygonFromBBox3D\<close> (camera/common/util.h) is not
  among the sources verified here. It derives the polygon footprint from the bounding geometry, and the footprint
  is not empty: \<open>footprint\<close> gives the first vertex and the others.
\<close>

definition FillObjectPolygonFromBBox3D :: "(BBox3D \<Rightarrow> PointD \<times> PointD list) \<Rightarrow> Object \<Rightarrow> Object" where
  "FillObjectPolygonFromBBox3D footprint ob =
     (case footprint (bbox3d ob) of (p, ps) \<Rightarrow> ob\<lparr>polygon := p # ps\<rparr>)"

text \<open>
  What the code outside this file computes: the recomputation of the geometry, the
  footprint of a box, and what \<^verbatim>\<open>Update\<close> writes through the \<^verbatim>\<open>CameraFrame*\<close> it is
  handed. The update gets the frame by pointer as a stage does, so it may write to the frame
  and to the objects, the frame's pointer to its calibration service included.
\<close>

record Externals =
  calibrate :: "LaneLines \<Rightarrow> Geometry \<Rightarrow> bool \<times> Geometry"
  footprint :: "BBox3D \<Rightarrow> PointD \<times> PointD list"
  update_writes :: "World \<Rightarrow> World"

subsection \<open>\<^verbatim>\<open>Perception\<close>\<close>

text \<open>Lines 300-301: \<^verbatim>\<open>frame->camera_k_matrix = name_intrinsic_map_.at(sensor_name)\<close>.\<close>

definition resolve_camera_k_matrix :: "ObstacleCameraPerception \<Rightarrow> PerceptionState stmt" where
  "resolve_camera_k_matrix this s =
     (case this_name_intrinsic_map this (data_provider_sensor_name (frame (world s))) of
        None \<Rightarrow> (Some (Aborted OutOfRange), s)
      | Some k \<Rightarrow> (None, s\<lparr>world := (world s)\<lparr>frame := (frame (world s))\<lparr>camera_k_matrix := k\<rparr>\<rparr>\<rparr>))"

text \<open>
  Lines 324 and 345: \<^verbatim>\<open>frame->calibration_service->Update(frame);\<close>, a statement of its
  own: what the update reports is dropped. The service that the pointer names becomes what
  \<open>Update\<close> computes, the other services stay, and the rest of the world is what the
  update wrote through the frame pointer.
\<close>

definition calibration_service_Update :: "Externals \<Rightarrow> PerceptionState stmt" where
  "calibration_service_Update ex s =
     (case calibration_service (frame (world s)) of
        None \<Rightarrow> (Some (Aborted NullDereference), s)
      | Some a \<Rightarrow>
         (case Update (calibrate ex) (frame (world s)) (services (world s) a) of (ok, cs) \<Rightarrow>
            (None, \<lparr>world = (update_writes ex (world s))\<lparr>services := (services (world s))(a := cs)\<rparr>,
                    trace = trace s @ [Call CalibrationUpdate (world s)]\<rparr>)))"

text \<open>Lines 395-398: the loop over \<^verbatim>\<open>frame->detected_objects\<close>.\<close>

fun set_sensor_names :: "string \<Rightarrow> nat list \<Rightarrow> (nat \<rightharpoonup> Object) \<Rightarrow> exn option \<times> (nat \<rightharpoonup> Object)" where
  "set_sensor_names n [] h = (None, h)"
| "set_sensor_names n (a # as) h =
     (case h a of
        None \<Rightarrow> (Some NullDereference, h)
      | Some ob \<Rightarrow> set_sensor_names n as (h(a \<mapsto> ob\<lparr>camera_supplement_sensor_name := n\<rparr>)))"

definition set_sensor_name_of_each_object :: "PerceptionState stmt" where
  "set_sensor_name_of_each_object s =
     (case set_sensor_names (data_provider_sensor_name (frame (world s)))
             (detected_objects (frame (world s))) (objects (world s)) of
        (x, h) \<Rightarrow> (map_option Aborted x, s\<lparr>world := (world s)\<lparr>objects := h\<rparr>\<rparr>))"

text \<open>
  Lines 450-453: the loop over \<^verbatim>\<open>frame->tracked_objects\<close>.
  \<^verbatim>\<open>FillObjectPolygonFromBBox3D\<close> returns at once on a null pointer; the assignment
  after it dereferences the pointer.
\<close>

fun fill_polygons :: "(BBox3D \<Rightarrow> PointD \<times> PointD list) \<Rightarrow> nat list \<Rightarrow> (nat \<rightharpoonup> Object) \<Rightarrow> exn option \<times> (nat \<rightharpoonup> Object)" where
  "fill_polygons fp [] h = (None, h)"
| "fill_polygons fp (a # as) h =
     (case h a of
        None \<Rightarrow> (Some NullDereference, h)
      | Some ob \<Rightarrow>
         (let ob1 = FillObjectPolygonFromBBox3D fp ob
          in fill_polygons fp as (h(a \<mapsto> ob1\<lparr>anchor_point := center ob1\<rparr>))))"

definition fill_polygon_and_set_anchor_point :: "Externals \<Rightarrow> PerceptionState stmt" where
  "fill_polygon_and_set_anchor_point ex s =
     (case fill_polygons (footprint ex) (tracked_objects (frame (world s))) (objects (world s)) of
        (x, h) \<Rightarrow> (map_option Aborted x, s\<lparr>world := (world s)\<lparr>objects := h\<rparr>\<rparr>))"

text \<open>Lines 305-348: the lane stages and the calibration update.\<close>

definition lane_block :: "Externals \<Rightarrow> ObstacleCameraPerception \<Rightarrow> PerceptionState stmt list" where
  "lane_block ex this =
    [deref (this_lane_detector this) (\<lambda>p. or_return_false (invoke LaneDetect (lane_Detect p))),
     deref (this_lane_postprocessor this) (\<lambda>p. or_return_false (invoke LaneProcess2D (Process2D p))),
     calibration_service_Update ex,
     deref (this_lane_postprocessor this) (\<lambda>p. or_return_false (invoke LaneProcess3D (Process3D p))),
     emit (\<lambda>w. WriteLanelines
                 (has_debug_param (this_perception_param this) \<and>
                  has (lane_out_dir (debug_param (this_perception_param this))))
                 (str (lane_out_dir (debug_param (this_perception_param this))))
                 (frame_id (frame w)) (lane_objects (frame w)))]"

definition lane_or_sync :: "Externals \<Rightarrow> ObstacleCameraPerception \<Rightarrow> PerceptionState stmt" where
  "lane_or_sync ex this s =
     (if this_lane_calibration_working_sensor_name this = data_provider_sensor_name (frame (world s))
      then run (lane_block ex this) s
      else run [calibration_service_Update ex] s)"

text \<open>Lines 365-371: the detector of the frame's sensor.\<close>

definition detect :: "ObstacleCameraPerception \<Rightarrow> PerceptionState stmt" where
  "detect this s =
     (case this_name_detector_map this (data_provider_sensor_name (frame (world s))) of
        None \<Rightarrow> (Some (Aborted OutOfRange), s)
      | Some detector \<Rightarrow> deref detector (\<lambda>p. or_return_false (invoke ObstacleDetect (Detect p))) s)"

text \<open>Lines 380-385.\<close>

definition extract_features :: "ObstacleCameraPerception \<Rightarrow> PerceptionState stmt" where
  "extract_features this s =
     (case this_extractor this of
        None \<Rightarrow> (None, s)
      | Some p \<Rightarrow> or_return_false (invoke FeatureExtract (Extract p)) s)"

text \<open>Lines 414-420.\<close>

definition postprocess :: "ObstacleCameraPerception \<Rightarrow> PerceptionState stmt" where
  "postprocess this s =
     (let do_refinement_with_calibration_service = (calibration_service (frame (world s)) \<noteq> None)
      in deref (this_obstacle_postprocessor this)
           (\<lambda>p. or_return_false
                  (invoke (ObstaclePostprocess do_refinement_with_calibration_service)
                          (Process p do_refinement_with_calibration_service))) s)"

text \<open>Lines 350-453: from the calibration debug output to the loop over the tracked objects.\<close>

definition obstacle_block :: "Externals \<Rightarrow> ObstacleCameraPerception \<Rightarrow> PerceptionState stmt list" where
  "obstacle_block ex this =
    [emit (\<lambda>w. WriteCalibrationOutput
                 (has_debug_param (this_perception_param this) \<and>
                  has (calibration_out_dir (debug_param (this_perception_param this))))
                 (str (calibration_out_dir (debug_param (this_perception_param this))))
                 (frame_id (frame w))),
     deref (this_tracker this) (\<lambda>p. or_return_false (invoke TrackerPredict (Predict p))),
     detect this,
     emit (\<lambda>w. WriteDetections
                 (has (detection_out_dir (debug_param (this_perception_param this))))
                 (str (detection_out_dir (debug_param (this_perception_param this))))
                 (frame_id (frame w)) (detected_objects (frame w))),
     extract_features this,
     emit (\<lambda>w. WriteDetectionsFrame
                 (has (detect_feature_dir (debug_param (this_perception_param this))))
                 (str (detect_feature_dir (debug_param (this_perception_param this))))
                 (frame_id (frame w))),
     set_sensor_name_of_each_object,
     deref (this_tracker this) (\<lambda>p. or_return_false (invoke TrackerAssociate2D (Associate2D p))),
     deref (this_transformer this) (\<lambda>p. or_return_false (invoke ObstacleTransform (Transform p))),
     postprocess this,
     deref (this_tracker this) (\<lambda>p. or_return_false (invoke TrackerAssociate3D (Associate3D p))),
     deref (this_tracker this) (\<lambda>p. or_return_false (invoke TrackerTrack (Track p))),
     emit (\<lambda>w. WriteCamera2World (this_out_pose this) (frame_id (frame w))
                 (camera2world_pose (frame w))),
     emit (\<lambda>w. WriteTracking (this_out_track this) (frame_id (frame w))
                 (tracked_objects (frame w))),
     emit (\<lambda>w. WriteDetections
                 (has (tracked_detection_out_dir (debug_param (this_perception_param this))))
                 (str (tracked_detection_out_dir (debug_param (this_perception_param this))))
                 (frame_id (frame w)) (tracked_objects (frame w))),
     fill_polygon_and_set_anchor_point ex]"

text \<open>
  The whole function: the device binding, the intrinsics, the check of the calibration
  service, the lane block or the bare update, the obstacle block, \<^verbatim>\<open>return true\<close>. The
  performance macros only read a clock and log; they are left out.
\<close>

definition Perception :: "Externals \<Rightarrow> ObstacleCameraPerception \<Rightarrow> PerceptionState stmt" where
  "Perception ex this = run
    ([emit (\<lambda>w. SetDeviceId (gpu_id (this_perception_param this))),
      resolve_camera_k_matrix this,
      (\<lambda>s. CHECK (calibration_service (frame (world s)) \<noteq> None) s),
      lane_or_sync ex this]
     @ obstacle_block ex this
     @ [return True])"

subsection \<open>\<^verbatim>\<open>Init\<close>\<close>

text \<open>
  What \<^verbatim>\<open>Init\<close> calls outside this file: the work root, path joining, the protobuf
  reader, the GPU binding, the sensor manager's camera models and the plugin registries
  (\<^verbatim>\<open>GetInstanceByName\<close> gives a null pointer for an unknown name). A calibration service
  is created at an address of the world; its \<^verbatim>\<open>Init\<close> is a plugin call like the others.
\<close>

record Env =
  GetCybertronWorkRoot :: string
  GetAbsolutePath :: "string \<Rightarrow> string \<Rightarrow> string"
  GetProtoFromFile :: "string \<Rightarrow> PerceptionParam option"
  set_device_id :: "int \<Rightarrow> bool"
  GetUndistortCameraModel :: "string \<Rightarrow> CameraModel option"
  BaseObstacleDetectorRegisterer :: "string \<Rightarrow> BaseObstacleDetector option"
  BaseObstacleTrackerRegisterer :: "string \<Rightarrow> BaseObstacleTracker option"
  BaseObstacleTransformerRegisterer :: "string \<Rightarrow> BaseObstacleTransformer option"
  BaseObstaclePostprocessorRegisterer :: "string \<Rightarrow> BaseObstaclePostprocessor option"
  BaseFeatureExtractorRegisterer :: "string \<Rightarrow> BaseFeatureExtractor option"
  BaseLaneDetectorRegisterer :: "string \<Rightarrow> BaseLaneDetector option"
  BaseLanePostprocessorRegisterer :: "string \<Rightarrow> BaseLanePostprocessor option"
  BaseCalibrationServiceRegisterer :: "string \<Rightarrow> nat option"
  calibration_service_Init :: "nat \<Rightarrow> init_fn"
  ObjectTemplateManager_get_instance :: "ObjectTemplateManager option"

record CameraPerceptionInitOptions =
  options_root_dir :: string
  options_conf_file :: string
  lane_calibration_working_sensor_name :: string
  use_cybertron_work_root :: bool

datatype plugin_kind =
    DetectorPlugin | TrackerPlugin | TransformerPlugin | PostprocessorPlugin
  | FeatureExtractorPlugin | LaneDetectorPlugin | LanePostprocessorPlugin
  | CalibrationServicePlugin | ObjectTemplatePlugin

datatype init_event = InitCall plugin_kind InitOptions | OpenFile string

text \<open>The object under construction, the plugins' state, the calls made so far, and the local \<^verbatim>\<open>model\<close>.\<close>

record InitState =
  self :: ObstacleCameraPerception
  init_plugins :: PluginState
  init_log :: "init_event list"
  model :: "CameraModel option"

definition param :: "InitState \<Rightarrow> PerceptionParam" where
  "param s = this_perception_param (self s)"

text \<open>\<^verbatim>\<open>CHECK(plugin->Init(options))\<close>\<close>

definition CHECK_Init :: "plugin_kind \<Rightarrow> init_fn \<Rightarrow> InitOptions \<Rightarrow> InitState stmt" where
  "CHECK_Init k f opts s =
     (case f opts (init_plugins s) of (ok, ps) \<Rightarrow>
        CHECK ok (s\<lparr>init_plugins := ps, init_log := init_log s @ [InitCall k opts]\<rparr>))"

text \<open>\<^verbatim>\<open>std::map::insert\<close> keeps the entry of a key that is already there.\<close>

definition map_insert :: "('k \<rightharpoonup> 'v) \<Rightarrow> 'k \<Rightarrow> 'v \<Rightarrow> ('k \<rightharpoonup> 'v)" where
  "map_insert m k v = (case m k of None \<Rightarrow> m(k \<mapsto> v) | Some _ \<Rightarrow> m)"

definition work_root_of :: "Env \<Rightarrow> CameraPerceptionInitOptions \<Rightarrow> string" where
  "work_root_of env options = (if use_cybertron_work_root options then GetCybertronWorkRoot env else [])"

text \<open>Lines 46-51.\<close>

definition read_config :: "Env \<Rightarrow> CameraPerceptionInitOptions \<Rightarrow> InitState stmt" where
  "read_config env options s =
     (let config_file = GetAbsolutePath env (work_root_of env options)
                          (GetAbsolutePath env (options_root_dir options) (options_conf_file options))
      in case GetProtoFromFile env config_file of
           None \<Rightarrow> (Some (Aborted CheckFailed), s)
         | Some p \<Rightarrow> (None, s\<lparr>self := (self s)\<lparr>this_perception_param := p\<rparr>\<rparr>))"

text \<open>Lines 60-82: one round of the loop over the detector parameters.\<close>

definition init_detector :: "Env \<Rightarrow> string \<Rightarrow> DetectorParam \<Rightarrow> InitState stmt" where
  "init_detector env work_root detector_param_i s =
     (let pp = plugin_param detector_param_i;
          cam = camera_name detector_param_i;
          opts = default_InitOptions\<lparr>opt_root_dir := GetAbsolutePath env work_root (root_dir pp),
                   opt_conf_file := config_file pp, opt_gpu_id := gpu_id (param s)\<rparr>;
          s1 = s\<lparr>model := GetUndistortCameraModel env cam\<rparr>
      in case model s1 of
           None \<Rightarrow> (Some (Aborted NullDereference), s1)
         | Some pinhole \<Rightarrow>
            (let detector_ptr = BaseObstacleDetectorRegisterer env (name pp);
                 s2 = s1\<lparr>self := (self s1)
                        \<lparr>this_name_intrinsic_map :=
                           map_insert (this_name_intrinsic_map (self s1)) cam (get_intrinsic_params pinhole),
                         this_name_detector_map :=
                           map_insert (this_name_detector_map (self s1)) cam detector_ptr\<rparr>\<rparr>
             in case this_name_detector_map (self s2) cam of
                  None \<Rightarrow> (Some (Aborted OutOfRange), s2)
                | Some None \<Rightarrow> (Some (Aborted CheckFailed), s2)
                | Some (Some p) \<Rightarrow>
                   CHECK_Init DetectorPlugin (detector_Init p)
                     (opts\<lparr>base_camera_model := Some pinhole\<rparr>) s2))"

definition init_detectors :: "Env \<Rightarrow> string \<Rightarrow> InitState stmt" where
  "init_detectors env work_root s = run (map (init_detector env work_root) (detector_param (param s))) s"

text \<open>Lines 86-101.\<close>

definition init_tracker :: "Env \<Rightarrow> string \<Rightarrow> InitState stmt" where
  "init_tracker env work_root s =
     (case tracker_param (param s) of
        None \<Rightarrow> (Some (Aborted CheckFailed), s)
      | Some pp \<Rightarrow>
         deref (model s) (\<lambda>m s.
           let opts = default_InitOptions\<lparr>image_width := get_width m, image_height := get_height m,
                        opt_gpu_id := gpu_id (param s),
                        opt_root_dir := GetAbsolutePath env work_root (root_dir pp),
                        opt_conf_file := config_file pp\<rparr>;
               s1 = s\<lparr>self := (self s)\<lparr>this_tracker := BaseObstacleTrackerRegisterer env (name pp)\<rparr>\<rparr>
           in case this_tracker (self s1) of
                None \<Rightarrow> (Some (Aborted CheckFailed), s1)
              | Some p \<Rightarrow> CHECK_Init TrackerPlugin (tracker_Init p) opts s1) s)"

text \<open>Lines 104-117.\<close>

definition init_transformer :: "Env \<Rightarrow> string \<Rightarrow> InitState stmt" where
  "init_transformer env work_root s =
     (case transformer_param (param s) of
        None \<Rightarrow> (Some (Aborted CheckFailed), s)
      | Some pp \<Rightarrow>
         (let opts = default_InitOptions\<lparr>opt_root_dir := GetAbsolutePath env work_root (root_dir pp),
                       opt_conf_file := config_file pp\<rparr>;
              s1 = s\<lparr>self := (self s)\<lparr>this_transformer := BaseObstacleTransformerRegisterer env (name pp)\<rparr>\<rparr>
          in case this_transformer (self s1) of
               None \<Rightarrow> (Some (Aborted CheckFailed), s1)
             | Some p \<Rightarrow> CHECK_Init TransformerPlugin (transformer_Init p) opts s1))"

text \<open>Lines 120-133.\<close>

definition init_postprocessor :: "Env \<Rightarrow> string \<Rightarrow> InitState stmt" where
  "init_postprocessor env work_root s =
     (case postprocessor_param (param s) of
        None \<Rightarrow> (Some (Aborted CheckFailed), s)
      | Some pp \<Rightarrow>
         (let opts = default_InitOptions\<lparr>opt_root_dir := GetAbsolutePath env work_root (root_dir pp),
                       opt_conf_file := config_file pp\<rparr>;
              s1 = s\<lparr>self := (self s)
                     \<lparr>this_obstacle_postprocessor := BaseObstaclePostprocessorRegisterer env (name pp)\<rparr>\<rparr>
          in case this_obstacle_postprocessor (self s1) of
               None \<Rightarrow> (Some (Aborted CheckFailed), s1)
             | Some p \<Rightarrow> CHECK_Init PostprocessorPlugin (postprocessor_Init p) opts s1))"

text \<open>Lines 136-150.\<close>

definition init_feature_extractor :: "Env \<Rightarrow> string \<Rightarrow> InitState stmt" where
  "init_feature_extractor env work_root s =
     (case feature_param (param s) of
        None \<Rightarrow> (None, s\<lparr>self := (self s)\<lparr>this_extractor := None\<rparr>\<rparr>)
      | Some pp \<Rightarrow>
         (let opts = default_InitOptions\<lparr>opt_root_dir := GetAbsolutePath env work_root (root_dir pp),
                       opt_conf_file := config_file pp\<rparr>;
              s1 = s\<lparr>self := (self s)\<lparr>this_extractor := BaseFeatureExtractorRegisterer env (name pp)\<rparr>\<rparr>
          in case this_extractor (self s1) of
               None \<Rightarrow> (Some (Aborted CheckFailed), s1)
             | Some p \<Rightarrow> CHECK_Init FeatureExtractorPlugin (extractor_Init p) opts s1))"

text \<open>Lines 190-243: \<^verbatim>\<open>InitLane\<close>, first the lane detector, then the lane postprocessor.\<close>

definition init_lane_detector :: "Env \<Rightarrow> string \<Rightarrow> PluginParam \<Rightarrow> InitState stmt" where
  "init_lane_detector env work_root pp s =
     (let opts = default_InitOptions\<lparr>opt_conf_file := config_file pp,
                   opt_root_dir := GetAbsolutePath env work_root (root_dir pp),
                   opt_gpu_id := gpu_id (param s), base_camera_model := model s\<rparr>;
          s1 = s\<lparr>self := (self s)\<lparr>this_lane_detector := BaseLaneDetectorRegisterer env (name pp)\<rparr>\<rparr>
      in case this_lane_detector (self s1) of
           None \<Rightarrow> (Some (Aborted CheckFailed), s1)
         | Some p \<Rightarrow> CHECK_Init LaneDetectorPlugin (lane_detector_Init p) opts s1)"

definition init_lane_postprocessor :: "Env \<Rightarrow> string \<Rightarrow> PluginParam \<Rightarrow> PluginParam \<Rightarrow> InitState stmt" where
  "init_lane_postprocessor env work_root pp lpp s =
     (let opts = default_InitOptions\<lparr>detect_config_root := GetAbsolutePath env work_root (root_dir pp),
                   detect_config_name := config_file pp,
                   opt_root_dir := GetAbsolutePath env work_root (root_dir lpp),
                   opt_conf_file := config_file lpp\<rparr>;
          s1 = s\<lparr>self := (self s)\<lparr>this_lane_postprocessor := BaseLanePostprocessorRegisterer env (name lpp)\<rparr>\<rparr>
      in case this_lane_postprocessor (self s1) of
           None \<Rightarrow> (Some (Aborted CheckFailed), s1)
         | Some p \<Rightarrow> CHECK_Init LanePostprocessorPlugin (lane_postprocessor_Init p) opts s1)"

definition InitLane :: "Env \<Rightarrow> string \<Rightarrow> InitState stmt" where
  "InitLane env work_root s =
     (case lane_param (param s) of
        None \<Rightarrow> (Some (Aborted CheckFailed), s)
      | Some lp \<Rightarrow>
         (case lane_detector_param lp of
            None \<Rightarrow> (Some (Aborted CheckFailed), s)
          | Some pp \<Rightarrow>
             run [init_lane_detector env work_root pp,
                  init_lane_postprocessor env work_root pp (lane_postprocessor_param lp)] s))"

text \<open>Lines 245-271: \<^verbatim>\<open>InitCalibrationService\<close>.\<close>

definition InitCalibrationService :: "Env \<Rightarrow> string \<Rightarrow> InitState stmt" where
  "InitCalibrationService env work_root s =
     (case calibration_service_param (param s) of
        None \<Rightarrow> (Some (Aborted CheckFailed), s)
      | Some cp \<Rightarrow>
         deref (model s) (\<lambda>m s.
           let opts = default_InitOptions
                 \<lparr>opt_calibrator_working_sensor_name := this_lane_calibration_working_sensor_name (self s),
                  name_intrinsic_map := this_name_intrinsic_map (self s),
                  opt_calibrator_method := calibrator_method cp,
                  image_height := get_height m, image_width := get_width m\<rparr>;
               s1 = s\<lparr>self := (self s)
                     \<lparr>this_calibration_service :=
                        BaseCalibrationServiceRegisterer env (name (calibration_plugin_param cp))\<rparr>\<rparr>
           in case this_calibration_service (self s1) of
                None \<Rightarrow> (Some (Aborted CheckFailed), s1)
              | Some a \<Rightarrow> CHECK_Init CalibrationServicePlugin (calibration_service_Init env a) opts s1) s)"

text \<open>Lines 162-172.\<close>

definition open_stream :: "string option \<Rightarrow> InitState \<Rightarrow> InitState" where
  "open_stream f s = (case f of None \<Rightarrow> s | Some path \<Rightarrow> s\<lparr>init_log := init_log s @ [OpenFile path]\<rparr>)"

definition init_debug_info :: "InitState stmt" where
  "init_debug_info s =
     (case debug_param_opt (param s) of
        None \<Rightarrow> (None, s)
      | Some d \<Rightarrow>
         (let s1 = open_stream (track_out_file d) s;
              s2 = (case track_out_file d of None \<Rightarrow> s1
                    | Some path \<Rightarrow> s1\<lparr>self := (self s1)\<lparr>this_out_track := Some path\<rparr>\<rparr>);
              s3 = open_stream (camera2world_out_file d) s2;
              s4 = (case camera2world_out_file d of None \<Rightarrow> s3
                    | Some path \<Rightarrow> s3\<lparr>self := (self s3)\<lparr>this_out_pose := Some path\<rparr>\<rparr>)
          in (None, s4)))"

text \<open>Lines 175-186.\<close>

definition init_object_template :: "Env \<Rightarrow> string \<Rightarrow> InitState stmt" where
  "init_object_template env work_root s =
     (case object_template_param (param s) of
        None \<Rightarrow> (None, s)
      | Some pp \<Rightarrow>
         (let opts = default_InitOptions\<lparr>opt_root_dir := GetAbsolutePath env work_root (root_dir pp),
                       opt_conf_file := config_file pp\<rparr>;
              s1 = s\<lparr>self := (self s)\<lparr>this_object_template_manager := ObjectTemplateManager_get_instance env\<rparr>\<rparr>
          in case this_object_template_manager (self s1) of
               None \<Rightarrow> (Some (Aborted CheckFailed), s1)
             | Some p \<Rightarrow> CHECK_Init ObjectTemplatePlugin (template_Init p) opts s1))"

text \<open>The whole of \<^verbatim>\<open>Init\<close>.\<close>

definition Init_body :: "Env \<Rightarrow> CameraPerceptionInitOptions \<Rightarrow> InitState stmt list" where
  "Init_body env options =
    (let work_root = work_root_of env options in
     [read_config env options,
      (\<lambda>s. CHECK (set_device_id env (gpu_id (param s))) s),
      (\<lambda>s. CHECK (0 < length (detector_param (param s))) s),
      init_detectors env work_root,
      init_tracker env work_root,
      init_transformer env work_root,
      init_postprocessor env work_root,
      init_feature_extractor env work_root,
      (\<lambda>s. (None, s\<lparr>self := (self s)\<lparr>this_lane_calibration_working_sensor_name :=
                                         lane_calibration_working_sensor_name options\<rparr>\<rparr>)),
      InitLane env work_root,
      InitCalibrationService env work_root,
      init_debug_info,
      init_object_template env work_root,
      return True])"

definition Init :: "Env \<Rightarrow> CameraPerceptionInitOptions \<Rightarrow> InitState stmt" where
  "Init env options = run (Init_body env options)"

text \<open>\<^verbatim>\<open>Init\<close> called on a freshly constructed object.\<close>

definition new_InitState :: "PluginState \<Rightarrow> InitState" where
  "new_InitState ps = \<lparr>self = constructed, init_plugins = ps, init_log = [], model = None\<rparr>"

subsection \<open>Describing a run\<close>

text \<open>A call of \<^verbatim>\<open>Perception\<close> starts with nothing called yet.\<close>

definition initially :: "World \<Rightarrow> PerceptionState" where
  "initially w = \<lparr>world = w, trace = []\<rparr>"

text \<open>
  \<open>behaves upd P c\<close>: statement \<open>c\<close> never returns true, leaves the services alone
  unless \<open>upd\<close>, and every event it adds to the trace satisfies \<open>P\<close>.
\<close>

definition behaves :: "bool \<Rightarrow> (event \<Rightarrow> bool) \<Rightarrow> PerceptionState stmt \<Rightarrow> bool" where
  "behaves upd P c \<longleftrightarrow>
     (\<forall>s r s'. c s = (r, s') \<longrightarrow>
        r \<noteq> Some (Returned True) \<and>
        (\<not> upd \<longrightarrow> services (world s') = services (world s)) \<and>
        (\<exists>new. trace s' = trace s @ new \<and> (\<forall>e \<in> set new. P e)))"

text \<open>What the lane block and the obstacle block may add to the trace.\<close>

definition lane_event :: "event \<Rightarrow> bool" where
  "lane_event e \<longleftrightarrow> (case e of Call g w \<Rightarrow> g \<in> {LaneDetect, LaneProcess2D, CalibrationUpdate, LaneProcess3D}
                     | WriteLanelines a b c d \<Rightarrow> True | _ \<Rightarrow> False)"

definition obstacle_event :: "ObstacleCameraPerception \<Rightarrow> event \<Rightarrow> bool" where
  "obstacle_event this e \<longleftrightarrow>
     (case e of
        Call g w \<Rightarrow>
          (case g of
             FeatureExtract \<Rightarrow> this_extractor this \<noteq> None
           | ObstaclePostprocess b \<Rightarrow> b = (calibration_service (frame w) \<noteq> None)
           | LaneDetect \<Rightarrow> False | LaneProcess2D \<Rightarrow> False
           | CalibrationUpdate \<Rightarrow> False | LaneProcess3D \<Rightarrow> False
           | _ \<Rightarrow> True)
      | SetDeviceId i \<Rightarrow> False
      | WriteLanelines a b c d \<Rightarrow> False
      | _ \<Rightarrow> True)"

text \<open>Any event but a call of 2D association.\<close>

definition not_associate2D :: "event \<Rightarrow> bool" where
  "not_associate2D e \<longleftrightarrow> (\<forall>w. e \<noteq> Call TrackerAssociate2D w)"

text \<open>
  The plugin function behind a stage call, and the calls whose result the orchestrator
  reads and that reported failure. The result of the calibration update is never read.
\<close>

definition stage_fn_of :: "ObstacleCameraPerception \<Rightarrow> stage \<Rightarrow> World \<Rightarrow> stage_fn option" where
  "stage_fn_of this g w =
     (case g of
        LaneDetect \<Rightarrow> map_option lane_Detect (this_lane_detector this)
      | LaneProcess2D \<Rightarrow> map_option Process2D (this_lane_postprocessor this)
      | CalibrationUpdate \<Rightarrow> None
      | LaneProcess3D \<Rightarrow> map_option Process3D (this_lane_postprocessor this)
      | TrackerPredict \<Rightarrow> map_option Predict (this_tracker this)
      | ObstacleDetect \<Rightarrow>
          (case this_name_detector_map this (data_provider_sensor_name (frame w)) of
             Some (Some p) \<Rightarrow> Some (Detect p) | _ \<Rightarrow> None)
      | FeatureExtract \<Rightarrow> map_option Extract (this_extractor this)
      | TrackerAssociate2D \<Rightarrow> map_option Associate2D (this_tracker this)
      | ObstacleTransform \<Rightarrow> map_option Transform (this_transformer this)
      | ObstaclePostprocess b \<Rightarrow> map_option (\<lambda>p. Process p b) (this_obstacle_postprocessor this)
      | TrackerAssociate3D \<Rightarrow> map_option Associate3D (this_tracker this)
      | TrackerTrack \<Rightarrow> map_option Track (this_tracker this))"

definition reports_failure :: "ObstacleCameraPerception \<Rightarrow> event \<Rightarrow> bool" where
  "reports_failure this e =
     (case e of
        Call g w \<Rightarrow> (case stage_fn_of this g w of Some f \<Rightarrow> \<not> fst (f w) | None \<Rightarrow> False)
      | _ \<Rightarrow> False)"

text \<open>
  \<open>stops_at_failure this r new\<close>: either no call in \<open>new\<close> reported failure, or the last
  one did, it is the only one, and the function returned false.
\<close>

definition stops_at_failure :: "ObstacleCameraPerception \<Rightarrow> exit option \<Rightarrow> event list \<Rightarrow> bool" where
  "stops_at_failure this r new \<longleftrightarrow>
     (\<forall>e \<in> set new. \<not> reports_failure this e) \<or>
     (r = Some (Returned False) \<and> new \<noteq> [] \<and> reports_failure this (last new) \<and>
      (\<forall>e \<in> set (butlast new). \<not> reports_failure this e))"

definition fail_fast :: "ObstacleCameraPerception \<Rightarrow> PerceptionState stmt \<Rightarrow> bool" where
  "fail_fast this c \<longleftrightarrow>
     (\<forall>s r s'. c s = (r, s') \<longrightarrow>
        (\<exists>new. trace s' = trace s @ new \<and> stops_at_failure this r new \<and>
               (r = None \<longrightarrow> (\<forall>e \<in> set new. \<not> reports_failure this e))))"

text \<open>The stages called, in order.\<close>

fun called :: "event list \<Rightarrow> stage list" where
  "called [] = []"
| "called (Call g w # es) = g # called es"
| "called (e # es) = called es"

text \<open>Every detected object of the frame carries the frame's sensor name.\<close>

definition sensor_names_set :: "World \<Rightarrow> bool" where
  "sensor_names_set w \<longleftrightarrow>
     (\<forall>a \<in> set (detected_objects (frame w)).
        \<exists>ob. objects w a = Some ob \<and>
             camera_supplement_sensor_name ob = data_provider_sensor_name (frame w))"

text \<open>
  \<open>establishes P c Q F\<close>: from a state in \<open>P\<close>, statement \<open>c\<close> falls through to a
  state in \<open>Q\<close> or leaves with an exit \<open>e\<close> and a state in \<open>F e\<close>.
\<close>

definition establishes ::
  "('s \<Rightarrow> bool) \<Rightarrow> 's stmt \<Rightarrow> ('s \<Rightarrow> bool) \<Rightarrow> (exit \<Rightarrow> 's \<Rightarrow> bool) \<Rightarrow> bool" where
  "establishes P c Q F \<longleftrightarrow>
     (\<forall>s r s'. P s \<longrightarrow> c s = (r, s') \<longrightarrow> (case r of None \<Rightarrow> Q s' | Some e \<Rightarrow> F e s'))"

text \<open>The options of the tracker's \<^verbatim>\<open>Init\<close> calls in a log.\<close>

fun tracker_options :: "init_event list \<Rightarrow> InitOptions list" where
  "tracker_options [] = []"
| "tracker_options (InitCall TrackerPlugin opts # es) = opts # tracker_options es"
| "tracker_options (e # es) = tracker_options es"

text \<open>
  A statement of \<^verbatim>\<open>Init\<close> that leaves the configuration and the extractor alone and
  does not initialise a tracker.
\<close>

definition init_quiet :: "InitState stmt \<Rightarrow> bool" where
  "init_quiet c \<longleftrightarrow>
     (\<forall>s r s'. c s = (r, s') \<longrightarrow>
        param s' = param s \<and> this_extractor (self s') = this_extractor (self s) \<and>
        (\<forall>opts. InitCall TrackerPlugin opts \<in> set (init_log s') \<longrightarrow>
                InitCall TrackerPlugin opts \<in> set (init_log s)))"

text \<open>
  Every tracker initialisation in the log got the width and height of the camera model of
  the last configured detector; no tracker initialisation in the log; the extractor is
  absent exactly when the configuration has no feature block.
\<close>

definition sized_by_last_camera :: "Env \<Rightarrow> InitState \<Rightarrow> bool" where
  "sized_by_last_camera env s \<longleftrightarrow>
     (\<forall>opts. InitCall TrackerPlugin opts \<in> set (init_log s) \<longrightarrow>
        detector_param (param s) \<noteq> [] \<and>
        (\<exists>m. GetUndistortCameraModel env (camera_name (last (detector_param (param s)))) = Some m \<and>
             image_width opts = get_width m \<and> image_height opts = get_height m))"

definition no_tracker_yet :: "InitState \<Rightarrow> bool" where
  "no_tracker_yet s \<longleftrightarrow> (\<forall>opts. InitCall TrackerPlugin opts \<notin> set (init_log s))"

definition extractor_as_configured :: "InitState \<Rightarrow> bool" where
  "extractor_as_configured s \<longleftrightarrow>
     (this_extractor (self s) = None) = (feature_param (param s) = None)"

text \<open>Any event but a call of the obstacle postprocessor, and any event but a calibration update.\<close>

definition not_postprocess :: "event \<Rightarrow> bool" where
  "not_postprocess e \<longleftrightarrow> (\<forall>b w. e \<noteq> Call (ObstaclePostprocess b) w)"

definition not_update :: "event \<Rightarrow> bool" where
  "not_update e \<longleftrightarrow> (\<forall>w. e \<noteq> Call CalibrationUpdate w)"

text \<open>
  \<open>flags_true s\<close>: no call of the obstacle postprocessor so far was given the flag false.
  \<open>reference_held s\<close>: moreover the frame still points to a calibration service.
\<close>

definition flags_true :: "PerceptionState \<Rightarrow> bool" where
  "flags_true s \<longleftrightarrow> (\<forall>w. Call (ObstaclePostprocess False) w \<notin> set (trace s))"

definition reference_held :: "PerceptionState \<Rightarrow> bool" where
  "reference_held s \<longleftrightarrow> calibration_service (frame (world s)) \<noteq> None \<and> flags_true s"

text \<open>
  \<^verbatim>\<open>Perception\<close> hands the mutable \<^verbatim>\<open>CameraFrame*\<close> to every stage, so a stage can assign
  \<^verbatim>\<open>frame->calibration_service\<close>. \<open>keeps_reference f\<close>: the stage function \<open>f\<close> leaves that
  pointer as it found it. \<open>stages_keep_reference this\<close>: so does every stage function that
  \<^verbatim>\<open>Perception\<close> calls before the obstacle postprocessor (lines 309-406).
\<close>

definition keeps_reference :: "stage_fn \<Rightarrow> bool" where
  "keeps_reference f \<longleftrightarrow>
     (\<forall>w. calibration_service (frame (snd (f w))) = calibration_service (frame w))"

definition stages_keep_reference :: "ObstacleCameraPerception \<Rightarrow> bool" where
  "stages_keep_reference this \<longleftrightarrow>
     (\<forall>p. this_lane_detector this = Some p \<longrightarrow> keeps_reference (lane_Detect p)) \<and>
     (\<forall>p. this_lane_postprocessor this = Some p \<longrightarrow>
          keeps_reference (Process2D p) \<and> keeps_reference (Process3D p)) \<and>
     (\<forall>p. this_tracker this = Some p \<longrightarrow>
          keeps_reference (Predict p) \<and> keeps_reference (Associate2D p)) \<and>
     (\<forall>n p. this_name_detector_map this n = Some (Some p) \<longrightarrow> keeps_reference (Detect p)) \<and>
     (\<forall>p. this_extractor this = Some p \<longrightarrow> keeps_reference (Extract p)) \<and>
     (\<forall>p. this_transformer this = Some p \<longrightarrow> keeps_reference (Transform p))"

text \<open>\<open>update_keeps_reference ex\<close>: neither does the calibration update write to that pointer.\<close>

definition update_keeps_reference :: "Externals \<Rightarrow> bool" where
  "update_keeps_reference ex \<longleftrightarrow>
     (\<forall>w. calibration_service (frame (update_writes ex w)) = calibration_service (frame w))"

text \<open>
  The world that the statement \<^verbatim>\<open>frame->calibration_service->Update(frame);\<close> leaves when
  it is run on \<open>w\<close>, and \<open>update_is_followed ex s\<close>: every calibration update in the trace
  is followed at once by the call of lane 3D postprocessing on the world the update left.
\<close>

definition after_update :: "Externals \<Rightarrow> World \<Rightarrow> World" where
  "after_update ex w = world (snd (calibration_service_Update ex (initially w)))"

definition update_is_followed :: "Externals \<Rightarrow> PerceptionState \<Rightarrow> bool" where
  "update_is_followed ex s \<longleftrightarrow>
     (\<forall>w1. Call CalibrationUpdate w1 \<in> set (trace s) \<longrightarrow>
        (\<exists>pre post. trace s =
           pre @ Call CalibrationUpdate w1 # Call LaneProcess3D (after_update ex w1) # post))"

subsection \<open>An example deployment\<close>

text \<open>
  The scenario of the specification: two cameras, \<open>front_6mm\<close> the calibration-working
  sensor and \<open>front_12mm\<close>, no feature extractor configured. The plugins succeed; the
  detector reports the object at address 1 and the tracker tracks what was detected.
\<close>

definition ok :: stage_fn where
  "ok w = (True, w)"

definition failing :: stage_fn where
  "failing w = (False, w)"

definition init_ok :: init_fn where
  "init_ok opts ps = (True, ps)"

definition example_detector :: BaseObstacleDetector where
  "example_detector = \<lparr>detector_Init = init_ok,
     Detect = (\<lambda>w. (True, w\<lparr>frame := (frame w)\<lparr>detected_objects := [1]\<rparr>\<rparr>))\<rparr>"

definition example_tracker :: BaseObstacleTracker where
  "example_tracker = \<lparr>tracker_Init = init_ok, Predict = ok, Associate2D = ok, Associate3D = ok,
     Track = (\<lambda>w. (True, w\<lparr>frame := (frame w)\<lparr>tracked_objects := detected_objects (frame w)\<rparr>\<rparr>))\<rparr>"

definition example_transformer :: BaseObstacleTransformer where
  "example_transformer = \<lparr>transformer_Init = init_ok, Transform = ok\<rparr>"

definition example_postprocessor :: BaseObstaclePostprocessor where
  "example_postprocessor = \<lparr>postprocessor_Init = init_ok, Process = (\<lambda>b. ok)\<rparr>"

definition example_extractor :: BaseFeatureExtractor where
  "example_extractor = \<lparr>extractor_Init = init_ok, Extract = ok\<rparr>"

definition failing_extractor :: BaseFeatureExtractor where
  "failing_extractor = \<lparr>extractor_Init = init_ok, Extract = failing\<rparr>"

definition example_lane_detector :: BaseLaneDetector where
  "example_lane_detector = \<lparr>lane_detector_Init = init_ok, lane_Detect = ok\<rparr>"

definition failing_lane_detector :: BaseLaneDetector where
  "failing_lane_detector = \<lparr>lane_detector_Init = init_ok, lane_Detect = failing\<rparr>"

definition example_lane_postprocessor :: BaseLanePostprocessor where
  "example_lane_postprocessor = \<lparr>lane_postprocessor_Init = init_ok, Process2D = ok, Process3D = ok\<rparr>"

text \<open>Lane postprocessors that fail in 2D and in 3D.\<close>

definition failing_lane_postprocessor_2D :: BaseLanePostprocessor where
  "failing_lane_postprocessor_2D = \<lparr>lane_postprocessor_Init = init_ok, Process2D = failing, Process3D = ok\<rparr>"

definition failing_lane_postprocessor_3D :: BaseLanePostprocessor where
  "failing_lane_postprocessor_3D = \<lparr>lane_postprocessor_Init = init_ok, Process2D = ok, Process3D = failing\<rparr>"

definition example_plugin_param :: PluginParam where
  "example_plugin_param = \<lparr>name = ''plugin'', root_dir = ''data'', config_file = ''config.pt''\<rparr>"

definition example_param :: PerceptionParam where
  "example_param = \<lparr>gpu_id = 0,
     detector_param = [\<lparr>plugin_param = example_plugin_param, camera_name = ''front_6mm''\<rparr>,
                       \<lparr>plugin_param = example_plugin_param, camera_name = ''front_12mm''\<rparr>],
     tracker_param = Some example_plugin_param,
     transformer_param = Some example_plugin_param,
     postprocessor_param = Some example_plugin_param,
     feature_param = None,
     lane_param = Some \<lparr>lane_detector_param = Some example_plugin_param,
                         lane_postprocessor_param = example_plugin_param\<rparr>,
     calibration_service_param =
       Some \<lparr>calibration_plugin_param = example_plugin_param, calibrator_method = ''LaneLineCalibrator''\<rparr>,
     debug_param_opt = None,
     object_template_param = None\<rparr>"

definition example_camera :: "string \<Rightarrow> CameraModel option" where
  "example_camera n =
     (if n = ''front_6mm'' then Some \<lparr>get_width = 1920, get_height = 1080, get_intrinsic_params = undefined\<rparr>
      else if n = ''front_12mm'' then Some \<lparr>get_width = 1280, get_height = 720, get_intrinsic_params = undefined\<rparr>
      else None)"

definition example_env :: Env where
  "example_env = \<lparr>GetCybertronWorkRoot = ''/apollo'',
     GetAbsolutePath = (\<lambda>a b. a @ ''/'' @ b),
     GetProtoFromFile = (\<lambda>f. Some example_param),
     set_device_id = (\<lambda>i. True),
     GetUndistortCameraModel = example_camera,
     BaseObstacleDetectorRegisterer = (\<lambda>n. Some example_detector),
     BaseObstacleTrackerRegisterer = (\<lambda>n. Some example_tracker),
     BaseObstacleTransformerRegisterer = (\<lambda>n. Some example_transformer),
     BaseObstaclePostprocessorRegisterer = (\<lambda>n. Some example_postprocessor),
     BaseFeatureExtractorRegisterer = (\<lambda>n. Some example_extractor),
     BaseLaneDetectorRegisterer = (\<lambda>n. Some example_lane_detector),
     BaseLanePostprocessorRegisterer = (\<lambda>n. Some example_lane_postprocessor),
     BaseCalibrationServiceRegisterer = (\<lambda>n. Some 0),
     calibration_service_Init = (\<lambda>a. init_ok),
     ObjectTemplateManager_get_instance = None\<rparr>"

definition example_options :: CameraPerceptionInitOptions where
  "example_options = \<lparr>options_root_dir = ''conf'', options_conf_file = ''obstacle.pt'',
     lane_calibration_working_sensor_name = ''front_6mm'', use_cybertron_work_root = False\<rparr>"

definition example_pipeline :: ObstacleCameraPerception where
  "example_pipeline = \<lparr>this_perception_param = example_param,
     this_name_intrinsic_map = [''front_6mm'' \<mapsto> undefined, ''front_12mm'' \<mapsto> undefined],
     this_name_detector_map = [''front_6mm'' \<mapsto> Some example_detector,
                               ''front_12mm'' \<mapsto> Some example_detector],
     this_tracker = Some example_tracker, this_transformer = Some example_transformer,
     this_obstacle_postprocessor = Some example_postprocessor, this_extractor = None,
     this_lane_detector = Some example_lane_detector,
     this_lane_postprocessor = Some example_lane_postprocessor,
     this_calibration_service = Some 0,
     this_lane_calibration_working_sensor_name = ''front_6mm'',
     this_object_template_manager = None, this_out_track = None, this_out_pose = None\<rparr>"

definition example_object :: Object where
  "example_object = \<lparr>bbox3d = undefined, center = 7, anchor_point = 0, polygon = [],
     camera_supplement_sensor_name = []\<rparr>"

definition example_frame :: "string \<Rightarrow> CameraFrame" where
  "example_frame sensor = \<lparr>data_provider_sensor_name = sensor, frame_id = 1,
     camera_k_matrix = undefined, calibration_service = Some 0, lane_objects = undefined,
     detected_objects = [], tracked_objects = [], camera2world_pose = undefined\<rparr>"

definition example_world :: "string \<Rightarrow> World" where
  "example_world sensor = \<lparr>frame = example_frame sensor, objects = [1 \<mapsto> example_object],
     services = (\<lambda>a. \<lparr>calibrator_working_sensor_name = ''front_6mm'', geometry = undefined\<rparr>),
     plugins = undefined\<rparr>"

definition example_externals :: Externals where
  "example_externals = \<lparr>calibrate = (\<lambda>l g. (True, g)), footprint = (\<lambda>b. (undefined, [])),
     update_writes = (\<lambda>w. w)\<rparr>"

text \<open>The same deployment with a calibration whose recomputation reports failure.\<close>

definition failing_calibration :: Externals where
  "failing_calibration = \<lparr>calibrate = (\<lambda>l g. (False, g)), footprint = (\<lambda>b. (undefined, [])),
     update_writes = (\<lambda>w. w)\<rparr>"

text \<open>A transformer that succeeds and resets the frame's pointer to its calibration service.\<close>

definition resetting_transformer :: BaseObstacleTransformer where
  "resetting_transformer = \<lparr>transformer_Init = init_ok,
     Transform = (\<lambda>w. (True, w\<lparr>frame := (frame w)\<lparr>calibration_service := None\<rparr>\<rparr>))\<rparr>"

section \<open>Properties\<close>

subsection \<open>Blocks of statements\<close>

text \<open>
  Running a block statement by statement, splitting it in two, and chaining what each
  statement establishes.
\<close>

lemma run_Cons_result:
  "run (c # cs) s = (r, s') \<longleftrightarrow>
     (\<exists>e. c s = (Some e, s') \<and> r = Some e) \<or> (\<exists>s1. c s = (None, s1) \<and> run cs s1 = (r, s'))"
  by (cases "c s") (auto split: option.splits)

lemma run_Cons: "run (c # cs) t = (case c t of (None, t') \<Rightarrow> run cs t' | (Some e, t') \<Rightarrow> (Some e, t'))"
  by simp

lemma run_single: "run [c] s = c s"
  by (cases "c s") (auto split: option.splits)

lemma run_append:
  "run (xs @ ys) s = (case run xs s of (None, s1) \<Rightarrow> run ys s1 | (Some e, s1) \<Rightarrow> (Some e, s1))"
  by (induction xs arbitrary: s) (auto split: prod.splits option.splits)

lemma run_take_drop:
  "run cs s = (case run (take n cs) s of (None, s1) \<Rightarrow> run (drop n cs) s1 | (Some e, s1) \<Rightarrow> (Some e, s1))"
  using run_append[of "take n cs" "drop n cs" s] by simp

lemma run_take_drop_result:
  assumes "run cs s = (r, s')"
  shows "(\<exists>e. run (take n cs) s = (Some e, s') \<and> r = Some e) \<or>
         (\<exists>s1. run (take n cs) s = (None, s1) \<and> run (drop n cs) s1 = (r, s'))"
  using assms run_take_drop[of cs s n]
  by (cases "run (take n cs) s") (auto split: option.splits)

lemma establishesI:
  assumes "\<And>s s'. P s \<Longrightarrow> c s = (None, s') \<Longrightarrow> Q s'"
    and "\<And>s e s'. P s \<Longrightarrow> c s = (Some e, s') \<Longrightarrow> F e s'"
  shows "establishes P c Q F"
  using assms by (auto simp: establishes_def split: option.splits)

lemma establishes_Nil: "(\<And>s. P s \<Longrightarrow> Q s) \<Longrightarrow> establishes P (run []) Q F"
  by (simp add: establishes_def)

lemma establishes_Cons:
  assumes "establishes P c P' F" and "establishes P' (run cs) Q F"
  shows "establishes P (run (c # cs)) Q F"
  unfolding establishes_def
proof (intro allI impI)
  fix s r s'
  assume P: "P s" and "run (c # cs) s = (r, s')"
  then consider e where "c s = (Some e, s')" "r = Some e"
    | s1 where "c s = (None, s1)" "run cs s1 = (r, s')"
    unfolding run_Cons_result by blast
  then show "case r of None \<Rightarrow> Q s' | Some e \<Rightarrow> F e s'"
  proof cases
    case 1
    with assms(1) P show ?thesis unfolding establishes_def by fastforce
  next
    case 2
    with assms(1) P have "P' s1" unfolding establishes_def by fastforce
    with assms(2) 2(2) show ?thesis unfolding establishes_def by blast
  qed
qed

lemma establishes_append:
  assumes "establishes P (run xs) P' F" and "establishes P' (run ys) Q F"
  shows "establishes P (run (xs @ ys)) Q F"
  unfolding establishes_def
proof (intro allI impI)
  fix s r s'
  assume P: "P s" and run: "run (xs @ ys) s = (r, s')"
  obtain r1 s1 where x: "run xs s = (r1, s1)" by (cases "run xs s")
  show "case r of None \<Rightarrow> Q s' | Some e \<Rightarrow> F e s'"
  proof (cases r1)
    case None
    with assms(1) P x have "P' s1" unfolding establishes_def by fastforce
    moreover from run x None have "run ys s1 = (r, s')" by (simp add: run_append)
    ultimately show ?thesis using assms(2) unfolding establishes_def by blast
  next
    case (Some e)
    with run x have "r = Some e" "s' = s1" by (simp_all add: run_append)
    with assms(1) P x Some show ?thesis unfolding establishes_def by fastforce
  qed
qed

subsection \<open>What the statements of a frame add to the trace\<close>

text \<open>
  One rule for each kind of statement, then the lane block and the obstacle block.
\<close>

lemma behaves_emit: "(\<And>w. P (e w)) \<Longrightarrow> behaves upd P (emit e)"
  by (auto simp: behaves_def emit_def)

lemma behaves_stage: "(\<And>w. P (Call g w)) \<Longrightarrow> behaves upd P (or_return_false (invoke g f))"
  by (auto simp: behaves_def or_return_false_def invoke_def confine_def split: prod.splits if_splits)

lemma behaves_deref: "(\<And>x. behaves upd P (k x)) \<Longrightarrow> behaves upd P (deref p k)"
  by (auto simp: behaves_def deref_def split: option.splits)

lemma behaves_skip: "(\<And>s r s'. c s = (r, s') \<Longrightarrow> r \<noteq> Some (Returned True) \<and> trace s' = trace s \<and>
    services (world s') = services (world s))
   \<Longrightarrow> behaves upd P c"
  by (auto simp: behaves_def)

lemma behaves_resolve: "behaves upd P (resolve_camera_k_matrix this)"
  by (rule behaves_skip) (auto simp: resolve_camera_k_matrix_def split: option.splits)

lemma behaves_CHECK: "behaves upd P (\<lambda>s. CHECK (b s) s)"
  by (rule behaves_skip) (auto simp: CHECK_def split: if_splits)

lemma behaves_set_sensor_name: "behaves upd P set_sensor_name_of_each_object"
  by (rule behaves_skip) (auto simp: set_sensor_name_of_each_object_def split: prod.splits)

lemma behaves_fill: "behaves upd P (fill_polygon_and_set_anchor_point ex)"
  by (rule behaves_skip) (auto simp: fill_polygon_and_set_anchor_point_def split: prod.splits)

lemma behaves_detect: "(\<And>w. P (Call ObstacleDetect w)) \<Longrightarrow> behaves upd P (detect this)"
proof -
  assume P: "\<And>w. P (Call ObstacleDetect w)"
  have "\<And>d. behaves upd P (deref d (\<lambda>p. or_return_false (invoke ObstacleDetect (Detect p))))"
    by (intro behaves_deref behaves_stage P)
  then show ?thesis
    by (auto simp: behaves_def detect_def split: option.splits)
qed

lemma behaves_extract:
  "(\<And>w. this_extractor this \<noteq> None \<Longrightarrow> P (Call FeatureExtract w)) \<Longrightarrow> behaves upd P (extract_features this)"
proof (cases "this_extractor this")
  case None
  then show ?thesis by (auto simp: behaves_def extract_features_def)
next
  case (Some p)
  assume "\<And>w. this_extractor this \<noteq> None \<Longrightarrow> P (Call FeatureExtract w)"
  with Some have "behaves upd P (or_return_false (invoke FeatureExtract (Extract p)))"
    by (intro behaves_stage) simp
  with Some show ?thesis by (simp add: behaves_def extract_features_def)
qed

lemma behaves_postprocess:
  "(\<And>w. P (Call (ObstaclePostprocess (calibration_service (frame w) \<noteq> None)) w)) \<Longrightarrow>
     behaves upd P (postprocess this)"
  by (auto simp: behaves_def postprocess_def Let_def deref_def or_return_false_def invoke_def confine_def
           simp del: not_None_eq split: option.splits prod.splits if_splits)

lemma behaves_Update:
  "(\<And>w. P (Call CalibrationUpdate w)) \<Longrightarrow> behaves True P (calibration_service_Update ex)"
  by (auto simp: behaves_def calibration_service_Update_def split: option.splits prod.splits)

lemma behaves_run:
  assumes "\<And>c. c \<in> set cs \<Longrightarrow> behaves upd P c"
  shows "behaves upd P (run cs)"
  using assms
proof (induction cs)
  case Nil
  show ?case by (simp add: behaves_def)
next
  case (Cons c cs)
  have c: "behaves upd P c" and cs: "behaves upd P (run cs)"
    using Cons by simp_all
  show ?case
    unfolding behaves_def
  proof (intro allI impI)
    fix s r s'
    assume "run (c # cs) s = (r, s')"
    then consider e where "c s = (Some e, s')" "r = Some e"
      | s1 where "c s = (None, s1)" "run cs s1 = (r, s')"
      unfolding run_Cons_result by blast
    then show "r \<noteq> Some (Returned True) \<and>
        (\<not> upd \<longrightarrow> services (world s') = services (world s)) \<and>
        (\<exists>new. trace s' = trace s @ new \<and> (\<forall>e \<in> set new. P e))"
    proof cases
      case 1
      with c show ?thesis unfolding behaves_def by blast
    next
      case 2
      from c 2(1) have a: "\<not> upd \<longrightarrow> services (world s1) = services (world s)"
        and "\<exists>new. trace s1 = trace s @ new \<and> (\<forall>e \<in> set new. P e)"
        unfolding behaves_def by blast+
      then obtain n1 where n1: "trace s1 = trace s @ n1" "\<forall>e \<in> set n1. P e"
        by blast
      from cs 2(2) have b: "r \<noteq> Some (Returned True)"
        "\<not> upd \<longrightarrow> services (world s') = services (world s1)"
        and "\<exists>new. trace s' = trace s1 @ new \<and> (\<forall>e \<in> set new. P e)"
        unfolding behaves_def by blast+
      then obtain n2 where n2: "trace s' = trace s1 @ n2" "\<forall>e \<in> set n2. P e"
        by blast
      have "trace s' = trace s @ (n1 @ n2)" using n1 n2 by simp
      moreover have "\<forall>e \<in> set (n1 @ n2). P e"
        using n1 n2 by auto
      ultimately show ?thesis using a b by metis
    qed
  qed
qed

lemmas behaves_intros = behaves_emit behaves_stage behaves_deref behaves_resolve behaves_CHECK
  behaves_set_sensor_name behaves_fill behaves_detect behaves_extract behaves_postprocess behaves_Update

lemma behaves_lane_or_sync:
  assumes "\<And>e. lane_event e \<Longrightarrow> P e"
  shows "behaves True P (lane_or_sync ex this)"
proof -
  have 1: "behaves True P (run (lane_block ex this))"
    apply (rule behaves_run)
    apply (simp add: lane_block_def)
    apply (elim disjE; hypsubst)
    by (intro behaves_intros assms; simp add: lane_event_def)+
  have 2: "behaves True P (run [calibration_service_Update ex])"
    by (rule behaves_run) (auto intro!: behaves_Update assms simp: lane_event_def)
  from 1 2 show ?thesis
    by (auto simp: behaves_def lane_or_sync_def split: if_splits)
qed

lemma behaves_obstacle_block:
  "behaves False (obstacle_event this) (run (obstacle_block ex this))"
  apply (rule behaves_run)
  apply (simp add: obstacle_block_def)
  apply (elim disjE; hypsubst)
  by (intro behaves_intros; simp add: obstacle_event_def)+

lemma before_associate2D:
  "behaves False not_associate2D (run (take 6 (obstacle_block ex this)))"
  apply (rule behaves_run)
  apply (simp add: obstacle_block_def)
  apply (elim disjE; hypsubst)
  by (intro behaves_intros; simp add: not_associate2D_def)+

lemma after_associate2D:
  "behaves False not_associate2D (run (drop 8 (obstacle_block ex this)))"
  apply (rule behaves_run)
  apply (simp add: obstacle_block_def)
  apply (elim disjE; hypsubst)
  by (intro behaves_intros; simp add: not_associate2D_def)+

subsection \<open>The shape of a run\<close>

text \<open>
  \<^verbatim>\<open>Perception\<close> unfolded into its five parts, and the trace it leaves: the device
  binding, then events of the lane block, then events of the obstacle block.
\<close>

lemma Perception_unfold:
  "Perception ex this s =
     (case this_name_intrinsic_map this (data_provider_sensor_name (frame (world s))) of
        None \<Rightarrow> (Some (Aborted OutOfRange),
                 s\<lparr>trace := trace s @ [SetDeviceId (gpu_id (this_perception_param this))]\<rparr>)
      | Some k \<Rightarrow>
         (let s1 = s\<lparr>trace := trace s @ [SetDeviceId (gpu_id (this_perception_param this))],
                     world := (world s)\<lparr>frame := (frame (world s))\<lparr>camera_k_matrix := k\<rparr>\<rparr>\<rparr>
          in if calibration_service (frame (world s)) = None then (Some (Aborted CheckFailed), s1)
             else (case lane_or_sync ex this s1 of
                     (Some e, s2) \<Rightarrow> (Some e, s2)
                   | (None, s2) \<Rightarrow>
                      (case run (obstacle_block ex this) s2 of
                         (Some e, s3) \<Rightarrow> (Some e, s3)
                       | (None, s3) \<Rightarrow> (Some (Returned True), s3)))))"
proof -
  have start: "Perception ex this s =
    (case resolve_camera_k_matrix this
            (s\<lparr>trace := trace s @ [SetDeviceId (gpu_id (this_perception_param this))]\<rparr>) of
       (Some e, t) \<Rightarrow> (Some e, t)
     | (None, t) \<Rightarrow>
        (if calibration_service (frame (world t)) = None then (Some (Aborted CheckFailed), t)
         else (case lane_or_sync ex this t of
                 (Some e, s2) \<Rightarrow> (Some e, s2)
               | (None, s2) \<Rightarrow>
                  (case run (obstacle_block ex this) s2 of
                     (Some e, s3) \<Rightarrow> (Some e, s3)
                   | (None, s3) \<Rightarrow> (Some (Returned True), s3)))))"
    unfolding Perception_def
    by (simp only: append_Cons append_Nil run_Cons run_append)
       (auto simp: emit_def CHECK_def return_def split: prod.splits option.splits)
  show ?thesis
  proof (cases "this_name_intrinsic_map this (data_provider_sensor_name (frame (world s)))")
    case None
    then show ?thesis by (simp add: start resolve_camera_k_matrix_def)
  next
    case (Some k)
    then show ?thesis by (simp add: start resolve_camera_k_matrix_def Let_def)
  qed
qed

lemma Perception_trace:
  assumes "Perception ex this (initially w) = (r, s')"
  shows "\<exists>lane obst.
           trace s' = SetDeviceId (gpu_id (this_perception_param this)) # lane @ obst \<and>
           (\<forall>e \<in> set lane. lane_event e) \<and>
           (\<forall>e \<in> set obst. obstacle_event this e) \<and>
           (calibration_service (frame w) = None \<longrightarrow> lane = [] \<and> obst = [])"
proof (cases "this_name_intrinsic_map this (data_provider_sensor_name (frame w))")
  case None
  with assms show ?thesis by (auto simp: Perception_unfold initially_def)
next
  case (Some k)
  define s1 where "s1 = (initially w)\<lparr>trace := trace (initially w) @ [SetDeviceId (gpu_id (this_perception_param this))],
                     world := (world (initially w))\<lparr>frame := (frame (world (initially w)))\<lparr>camera_k_matrix := k\<rparr>\<rparr>\<rparr>"
  have s1: "trace s1 = [SetDeviceId (gpu_id (this_perception_param this))]"
    "calibration_service (frame (world s1)) = calibration_service (frame w)"
    by (simp_all add: s1_def initially_def)
  show ?thesis
  proof (cases "calibration_service (frame w) = None")
    case True
    with assms Some show ?thesis by (auto simp: Perception_unfold initially_def Let_def)
  next
    case False
    obtain r2 s2 where l: "lane_or_sync ex this s1 = (r2, s2)" by (cases "lane_or_sync ex this s1")
    from behaves_lane_or_sync[of lane_event ex this] l
    obtain lane where lane: "trace s2 = trace s1 @ lane" "\<forall>e \<in> set lane. lane_event e"
      unfolding behaves_def by blast
    show ?thesis
    proof (cases r2)
      case (Some e)
      with assms \<open>this_name_intrinsic_map this _ = Some k\<close> False l
      have "s' = s2" by (simp add: Perception_unfold Let_def s1_def initially_def)
      with lane s1 False show ?thesis
        by - (rule exI[of _ lane], rule exI[of _ "[]"], auto)
    next
      case None
      obtain r3 s3 where o: "run (obstacle_block ex this) s2 = (r3, s3)"
        by (cases "run (obstacle_block ex this) s2")
      from behaves_obstacle_block[of this ex] o
      obtain obst where obst: "trace s3 = trace s2 @ obst"
        "\<forall>e \<in> set obst. obstacle_event this e"
        unfolding behaves_def by blast
      from assms \<open>this_name_intrinsic_map this _ = Some k\<close> False l None o
      have "s' = s3" by (auto simp: Perception_unfold Let_def s1_def initially_def split: option.splits)
      with lane obst s1 False show ?thesis
        by - (rule exI[of _ lane], rule exI[of _ obst], auto)
    qed
  qed
qed

lemma called_append: "called (xs @ ys) = called xs @ called ys"
  by (induction xs rule: called.induct) auto

lemma in_called: "g \<in> set (called tr) \<longleftrightarrow> (\<exists>w. Call g w \<in> set tr)"
  by (induction tr rule: called.induct) auto

lemma no_extractor_no_extraction:
  assumes "Perception ex this (initially w) = (r, t')" and "this_extractor this = None"
  shows "FeatureExtract \<notin> set (called (trace t'))"
proof
  assume "FeatureExtract \<in> set (called (trace t'))"
  then obtain w1 where w1: "Call FeatureExtract w1 \<in> set (trace t')"
    unfolding in_called by blast
  from Perception_trace[OF assms(1)] obtain lane obst where
    t: "trace t' = SetDeviceId (gpu_id (this_perception_param this)) # lane @ obst"
    and lane: "\<forall>e \<in> set lane. lane_event e"
    and obst: "\<forall>e \<in> set obst. obstacle_event this e"
    by auto
  from w1 t lane have "Call FeatureExtract w1 \<in> set obst"
    by (auto simp: lane_event_def)
  with obst assms(2) show False by (auto simp: obstacle_event_def)
qed

lemma last_not_lane_means_no_obstacle:
  assumes run: "Perception ex this (initially w) = (r, s')"
    and last: "trace s' \<noteq> []" "lane_event (last (trace s'))"
  shows "\<forall>g \<in> set (called (trace s')). g \<in> {LaneDetect, LaneProcess2D, CalibrationUpdate, LaneProcess3D}"
proof -
  from Perception_trace[OF run] obtain lane obst where
    t: "trace s' = SetDeviceId (gpu_id (this_perception_param this)) # lane @ obst"
    and lane: "\<forall>e \<in> set lane. lane_event e"
    and obst: "\<forall>e \<in> set obst. obstacle_event this e"
    by auto
  have "obst = []"
  proof (rule ccontr)
    assume ne: "obst \<noteq> []"
    then have "last (trace s') = last obst" by (simp add: t)
    moreover have "last obst \<in> set obst" using ne by simp
    ultimately have "obstacle_event this (last (trace s'))"
      using obst by simp
    with last(2) show False
      by (auto simp: lane_event_def obstacle_event_def split: event.splits stage.splits)
  qed
  show ?thesis
  proof
    fix g
    assume "g \<in> set (called (trace s'))"
    then obtain w2 where "Call g w2 \<in> set (trace s')"
      unfolding in_called by blast
    with t \<open>obst = []\<close> have "Call g w2 \<in> set lane" by simp
    with lane have "lane_event (Call g w2)" by blast
    then show "g \<in> {LaneDetect, LaneProcess2D, CalibrationUpdate, LaneProcess3D}"
      by (simp add: lane_event_def)
  qed
qed

subsection \<open>Stopping at the first failure\<close>

text \<open>
  No statement goes on after a call that reported failure: in the trace of a run, such a
  call can only be the last event, and then the run returned false.
\<close>

lemma fail_fast_skip: "(\<And>s r s'. c s = (r, s') \<Longrightarrow> trace s' = trace s) \<Longrightarrow> fail_fast this c"
  by (auto simp: fail_fast_def stops_at_failure_def)

lemma fail_fast_emit: "(\<And>w. \<not> reports_failure this (e w)) \<Longrightarrow> fail_fast this (emit e)"
  by (auto simp: fail_fast_def stops_at_failure_def emit_def)

lemma fail_fast_stage:
  "(\<And>w. stage_fn_of this g w = Some f) \<Longrightarrow> fail_fast this (or_return_false (invoke g f))"
  by (auto simp: fail_fast_def stops_at_failure_def or_return_false_def invoke_def reports_failure_def
           split: prod.splits if_splits)

lemma fail_fast_deref: "(\<And>x. p = Some x \<Longrightarrow> fail_fast this (k x)) \<Longrightarrow> fail_fast this (deref p k)"
  by (auto simp: fail_fast_def stops_at_failure_def deref_def split: option.splits)

lemma fail_fast_resolve: "fail_fast this (resolve_camera_k_matrix this')"
  by (rule fail_fast_skip) (auto simp: resolve_camera_k_matrix_def split: option.splits)

lemma fail_fast_CHECK: "fail_fast this (\<lambda>s. CHECK (b s) s)"
  by (rule fail_fast_skip) (auto simp: CHECK_def)

lemma fail_fast_return: "fail_fast this (return b)"
  by (rule fail_fast_skip) (auto simp: return_def)

lemma fail_fast_set_sensor_name: "fail_fast this set_sensor_name_of_each_object"
  by (rule fail_fast_skip) (auto simp: set_sensor_name_of_each_object_def split: prod.splits)

lemma fail_fast_fill: "fail_fast this (fill_polygon_and_set_anchor_point ex)"
  by (rule fail_fast_skip) (auto simp: fill_polygon_and_set_anchor_point_def split: prod.splits)

lemma fail_fast_Update: "fail_fast this (calibration_service_Update ex)"
  by (auto simp: fail_fast_def stops_at_failure_def calibration_service_Update_def reports_failure_def
      stage_fn_of_def split: option.splits prod.splits)

lemma fail_fast_detect: "fail_fast this (detect this)"
  by (auto simp: fail_fast_def stops_at_failure_def detect_def deref_def or_return_false_def invoke_def
      reports_failure_def stage_fn_of_def split: option.splits prod.splits if_splits)

lemma fail_fast_extract: "fail_fast this (extract_features this)"
  by (auto simp: fail_fast_def stops_at_failure_def extract_features_def or_return_false_def invoke_def
      reports_failure_def stage_fn_of_def split: option.splits prod.splits if_splits)

lemma fail_fast_postprocess: "fail_fast this (postprocess this)"
  by (auto simp: fail_fast_def stops_at_failure_def postprocess_def Let_def deref_def or_return_false_def invoke_def
      reports_failure_def stage_fn_of_def simp del: not_None_eq split: option.splits prod.splits if_splits)

lemma stops_at_failure_append:
  assumes "\<forall>e \<in> set n1. \<not> reports_failure this e" and "stops_at_failure this r n2"
  shows "stops_at_failure this r (n1 @ n2)"
proof (cases "\<forall>e \<in> set n2. \<not> reports_failure this e")
  case True
  with assms(1) show ?thesis by (auto simp: stops_at_failure_def)
next
  case False
  with assms(2) have *: "r = Some (Returned False)" "n2 \<noteq> []" "reports_failure this (last n2)"
    "\<forall>e \<in> set (butlast n2). \<not> reports_failure this e"
    by (auto simp: stops_at_failure_def)
  then have "butlast (n1 @ n2) = n1 @ butlast n2" "last (n1 @ n2) = last n2"
    by (simp_all add: butlast_append)
  with * assms(1) show ?thesis by (auto simp: stops_at_failure_def)
qed

lemma fail_fast_run:
  assumes "\<And>c. c \<in> set cs \<Longrightarrow> fail_fast this c"
  shows "fail_fast this (run cs)"
  using assms
proof (induction cs)
  case Nil
  show ?case by (simp add: fail_fast_def stops_at_failure_def)
next
  case (Cons c cs)
  have c: "fail_fast this c" and cs: "fail_fast this (run cs)"
    using Cons by simp_all
  show ?case
    unfolding fail_fast_def
  proof (intro allI impI)
    fix s r s'
    assume "run (c # cs) s = (r, s')"
    then consider e where "c s = (Some e, s')" "r = Some e"
      | s1 where "c s = (None, s1)" "run cs s1 = (r, s')"
      unfolding run_Cons_result by blast
    then show "\<exists>new. trace s' = trace s @ new \<and> stops_at_failure this r new \<and>
               (r = None \<longrightarrow> (\<forall>e \<in> set new. \<not> reports_failure this e))"
    proof cases
      case 1
      with c show ?thesis unfolding fail_fast_def by blast
    next
      case 2
      from c 2(1) obtain n1 where n1: "trace s1 = trace s @ n1" "\<forall>e \<in> set n1. \<not> reports_failure this e"
        unfolding fail_fast_def by blast
      from cs 2(2) obtain n2 where n2: "trace s' = trace s1 @ n2" "stops_at_failure this r n2"
        "r = None \<longrightarrow> (\<forall>e \<in> set n2. \<not> reports_failure this e)"
        unfolding fail_fast_def by blast
      have "trace s' = trace s @ (n1 @ n2)" using n1 n2 by simp
      moreover have "stops_at_failure this r (n1 @ n2)"
        using n1(2) n2(2) by (rule stops_at_failure_append)
      moreover have "r = None \<longrightarrow> (\<forall>e \<in> set (n1 @ n2). \<not> reports_failure this e)"
        using n1(2) n2(3) by auto
      ultimately show ?thesis by blast
    qed
  qed
qed

lemmas fail_fast_intros = fail_fast_emit fail_fast_deref fail_fast_resolve fail_fast_CHECK
  fail_fast_return fail_fast_set_sensor_name fail_fast_fill fail_fast_Update fail_fast_detect
  fail_fast_extract fail_fast_postprocess

lemma fail_fast_lane_or_sync: "fail_fast this (lane_or_sync ex this)"
proof -
  have 1: "fail_fast this (run (lane_block ex this))"
    apply (rule fail_fast_run)
    apply (simp add: lane_block_def)
    apply (elim disjE; hypsubst)
    by (intro fail_fast_intros fail_fast_stage; simp add: reports_failure_def stage_fn_of_def)+
  have 2: "fail_fast this (run [calibration_service_Update ex])"
    by (rule fail_fast_run) (auto intro!: fail_fast_Update)
  from 1 2 show ?thesis
    by (auto simp: fail_fast_def lane_or_sync_def split: if_splits)
qed

lemma fail_fast_obstacle_member: "c \<in> set (obstacle_block ex this) \<Longrightarrow> fail_fast this c"
  apply (simp add: obstacle_block_def)
  apply (elim disjE; hypsubst)
  by (intro fail_fast_intros fail_fast_stage; simp add: reports_failure_def stage_fn_of_def)+

lemma fail_fast_Perception: "fail_fast this (Perception ex this)"
  unfolding Perception_def
proof (rule fail_fast_run)
  fix c
  assume "c \<in> set ([emit (\<lambda>w. SetDeviceId (gpu_id (this_perception_param this))),
      resolve_camera_k_matrix this,
      (\<lambda>s. CHECK (calibration_service (frame (world s)) \<noteq> None) s),
      lane_or_sync ex this] @ obstacle_block ex this @ [return True])"
  then consider "c = emit (\<lambda>w. SetDeviceId (gpu_id (this_perception_param this)))"
    | "c = resolve_camera_k_matrix this"
    | "c = (\<lambda>s. CHECK (calibration_service (frame (world s)) \<noteq> None) s)"
    | "c = lane_or_sync ex this" | "c \<in> set (obstacle_block ex this)" | "c = return True"
    by auto
  then show "fail_fast this c"
  proof cases
    case 1
    then show ?thesis by (auto intro!: fail_fast_emit simp: reports_failure_def)
  next
    case 2
    then show ?thesis by (simp add: fail_fast_resolve)
  next
    case 3
    then show ?thesis by (simp add: fail_fast_CHECK)
  next
    case 4
    then show ?thesis by (simp add: fail_fast_lane_or_sync)
  next
    case 5
    then show ?thesis by (rule fail_fast_obstacle_member)
  next
    case 6
    then show ?thesis by (simp add: fail_fast_return)
  qed
qed

lemma Perception_fail_fast:
  assumes "Perception ex this (initially w) = (r, s')"
  shows "stops_at_failure this r (trace s')"
  using fail_fast_Perception[of this ex] assms
  by (fastforce simp: fail_fast_def initially_def)

lemma failed_call_is_last:
  assumes "Perception ex this (initially w) = (r, s')"
    and "e \<in> set (trace s')" and "reports_failure this e"
  shows "r = Some (Returned False) \<and> trace s' \<noteq> [] \<and> last (trace s') = e"
proof -
  from Perception_fail_fast[OF assms(1)] assms(2,3)
  have *: "r = Some (Returned False)" "trace s' \<noteq> []" "reports_failure this (last (trace s'))"
    "\<forall>e \<in> set (butlast (trace s')). \<not> reports_failure this e"
    by (auto simp: stops_at_failure_def)
  have "e \<notin> set (butlast (trace s'))" using *(4) assms(3) by blast
  moreover have "trace s' = butlast (trace s') @ [last (trace s')]" using *(2) by simp
  ultimately have "e = last (trace s')" using assms(2)
    by (metis Un_iff empty_iff empty_set insert_iff list.simps(15) set_append)
  with * show ?thesis by simp
qed

subsection \<open>The calibration update\<close>

lemma Update_other_sensor:
  "data_provider_sensor_name fr \<noteq> calibrator_working_sensor_name cs \<Longrightarrow> Update c fr cs = (True, cs)"
  by (simp add: Update_def)

lemma Update_never_returns: "fst (calibration_service_Update ex t) \<noteq> Some (Returned b)"
  by (auto simp: calibration_service_Update_def split: option.splits prod.splits)

lemma Perception_other_sensor:
  assumes run: "Perception ex this (initially w) = (r, s')"
    and other: "data_provider_sensor_name (frame w) \<noteq> this_lane_calibration_working_sensor_name this"
    and k: "this_name_intrinsic_map this (data_provider_sensor_name (frame w)) = Some k"
    and a: "calibration_service (frame w) = Some a"
  shows "\<exists>obst. trace s' = [SetDeviceId (gpu_id (this_perception_param this)),
                             Call CalibrationUpdate (w\<lparr>frame := (frame w)\<lparr>camera_k_matrix := k\<rparr>\<rparr>)] @ obst \<and>
                (\<forall>e \<in> set obst. obstacle_event this e) \<and>
                services (world s') = (services w)
                  (a := snd (Update (calibrate ex) ((frame w)\<lparr>camera_k_matrix := k\<rparr>) (services w a)))"
proof -
  define w1 where "w1 = w\<lparr>frame := (frame w)\<lparr>camera_k_matrix := k\<rparr>\<rparr>"
  define s1 where "s1 = \<lparr>world = w1, trace = [SetDeviceId (gpu_id (this_perception_param this))]\<rparr>"
  define s2 where "s2 = \<lparr>world = (update_writes ex w1)\<lparr>services := (services w1)(a := snd (Update (calibrate ex) (frame w1) (services w1 a)))\<rparr>,
                         trace = trace s1 @ [Call CalibrationUpdate w1]\<rparr>"
  have l: "lane_or_sync ex this s1 = (None, s2)"
    using other a
    by (simp add: lane_or_sync_def s1_def s2_def w1_def run_single calibration_service_Update_def
          split: prod.splits)
  obtain r3 s3 where o: "run (obstacle_block ex this) s2 = (r3, s3)"
    by (cases "run (obstacle_block ex this) s2")
  from behaves_obstacle_block[of this ex] o
  obtain obst where obst: "trace s3 = trace s2 @ obst"
    "\<forall>e \<in> set obst. obstacle_event this e"
    and sv: "services (world s3) = services (world s2)"
    unfolding behaves_def by blast
  have "(initially w)\<lparr>trace := trace (initially w) @ [SetDeviceId (gpu_id (this_perception_param this))],
           world := (world (initially w))\<lparr>frame := (frame (world (initially w)))\<lparr>camera_k_matrix := k\<rparr>\<rparr>\<rparr> = s1"
    by (simp add: initially_def s1_def w1_def)
  with run k a l o have "s' = s3"
    by (auto simp: Perception_unfold Let_def initially_def split: option.splits)
  with obst sv a show ?thesis
    by (intro exI[of _ obst]) (simp add: s2_def s1_def w1_def)
qed

subsection \<open>The loop over the detected objects\<close>

lemma set_sensor_names_keeps:
  "set_sensor_names n as h = (x, h') \<Longrightarrow> h a = Some ob \<Longrightarrow> camera_supplement_sensor_name ob = n \<Longrightarrow>
     \<exists>ob'. h' a = Some ob' \<and> camera_supplement_sensor_name ob' = n"
proof (induction as arbitrary: h ob)
  case Nil
  then show ?case by simp
next
  case (Cons b as)
  show ?case
  proof (cases "h b")
    case None
    with Cons.prems show ?thesis by simp
  next
    case (Some obb)
    let ?h = "h(b \<mapsto> obb\<lparr>camera_supplement_sensor_name := n\<rparr>)"
    from Cons.prems(1) Some have rec: "set_sensor_names n as ?h = (x, h')" by simp
    from Cons.prems(2,3) obtain ob1 where "?h a = Some ob1" "camera_supplement_sensor_name ob1 = n"
      by (cases "a = b") auto
    from Cons.IH[OF rec this] show ?thesis .
  qed
qed

lemma set_sensor_names_sets:
  "set_sensor_names n as h = (None, h') \<Longrightarrow> a \<in> set as \<Longrightarrow>
     \<exists>ob. h' a = Some ob \<and> camera_supplement_sensor_name ob = n"
proof (induction as arbitrary: h)
  case Nil
  then show ?case by simp
next
  case (Cons b as)
  show ?case
  proof (cases "h b")
    case None
    with Cons.prems show ?thesis by simp
  next
    case (Some obb)
    let ?h = "h(b \<mapsto> obb\<lparr>camera_supplement_sensor_name := n\<rparr>)"
    from Cons.prems(1) Some have rec: "set_sensor_names n as ?h = (None, h')" by simp
    show ?thesis
    proof (cases "a = b")
      case True
      have "?h a = Some (obb\<lparr>camera_supplement_sensor_name := n\<rparr>)" using True by simp
      from set_sensor_names_keeps[OF rec this] show ?thesis by simp
    next
      case False
      with Cons.prems(2) have "a \<in> set as" by simp
      from Cons.IH[OF rec this] show ?thesis .
    qed
  qed
qed

lemma set_sensor_name_of_each_object_result:
  assumes "set_sensor_name_of_each_object s = (r, s')"
  shows "trace s' = trace s \<and> (r = None \<longrightarrow> sensor_names_set (world s'))"
proof -
  obtain x h where sn: "set_sensor_names (data_provider_sensor_name (frame (world s)))
             (detected_objects (frame (world s))) (objects (world s)) = (x, h)"
    by (cases "set_sensor_names (data_provider_sensor_name (frame (world s)))
             (detected_objects (frame (world s))) (objects (world s))")
  with assms have s': "s' = s\<lparr>world := (world s)\<lparr>objects := h\<rparr>\<rparr>" "r = map_option Aborted x"
    by (simp_all add: set_sensor_name_of_each_object_def)
  show ?thesis
  proof (cases x)
    case None
    with sn set_sensor_names_sets have "\<forall>a \<in> set (detected_objects (frame (world s))).
        \<exists>ob. h a = Some ob \<and> camera_supplement_sensor_name ob = data_provider_sensor_name (frame (world s))"
      by blast
    with s' show ?thesis by (simp add: sensor_names_set_def)
  next
    case (Some e)
    with s' show ?thesis by simp
  qed
qed

lemma obstacle_block_at_associate2D:
  "drop 6 (obstacle_block ex this) =
     set_sensor_name_of_each_object #
     deref (this_tracker this) (\<lambda>p. or_return_false (invoke TrackerAssociate2D (Associate2D p))) #
     drop 8 (obstacle_block ex this)"
  by (simp add: obstacle_block_def)

lemma obstacle_block_associate2D:
  assumes run: "run (obstacle_block ex this) t = (r, t')"
    and new: "Call TrackerAssociate2D w1 \<in> set (trace t')" "Call TrackerAssociate2D w1 \<notin> set (trace t)"
  shows "sensor_names_set w1"
proof -
  have no_new: False if "trace t' = trace u @ new" "\<forall>e \<in> set new. not_associate2D e"
    "Call TrackerAssociate2D w1 \<notin> set (trace u)" for u :: PerceptionState and new
    using that new(1) by (auto simp: not_associate2D_def)
  from run_take_drop_result[OF run, of 6]
  consider e where "run (take 6 (obstacle_block ex this)) t = (Some e, t')"
    | t6 where "run (take 6 (obstacle_block ex this)) t = (None, t6)"
        "run (drop 6 (obstacle_block ex this)) t6 = (r, t')"
    by blast
  then show ?thesis
  proof cases
    case 1
    with before_associate2D[of ex this] obtain n where
      "trace t' = trace t @ n" "\<forall>e \<in> set n. not_associate2D e"
      unfolding behaves_def by blast
    from no_new[OF this new(2)] show ?thesis ..
  next
    case 2
    from before_associate2D[of ex this] 2(1) obtain n6 where
      n6: "trace t6 = trace t @ n6" "\<forall>e \<in> set n6. not_associate2D e"
      unfolding behaves_def by blast
    then have t6: "Call TrackerAssociate2D w1 \<notin> set (trace t6)"
      using new(2) by (auto simp: not_associate2D_def)
    from 2(2) obstacle_block_at_associate2D[of ex this]
    have "run (set_sensor_name_of_each_object #
               deref (this_tracker this) (\<lambda>p. or_return_false (invoke TrackerAssociate2D (Associate2D p))) #
               drop 8 (obstacle_block ex this)) t6 = (r, t')"
      by simp
    then consider e where "set_sensor_name_of_each_object t6 = (Some e, t')"
      | t7 where "set_sensor_name_of_each_object t6 = (None, t7)"
        "run (deref (this_tracker this) (\<lambda>p. or_return_false (invoke TrackerAssociate2D (Associate2D p))) #
               drop 8 (obstacle_block ex this)) t7 = (r, t')"
      unfolding run_Cons_result by blast
    then show ?thesis
    proof cases
      case 1
      from set_sensor_name_of_each_object_result[OF 1] new(1) t6 show ?thesis by simp
    next
      case 2
      from set_sensor_name_of_each_object_result[OF 2(1)]
      have t7: "trace t7 = trace t6" "sensor_names_set (world t7)" by simp_all
      from 2(2) consider e where
          "deref (this_tracker this) (\<lambda>p. or_return_false (invoke TrackerAssociate2D (Associate2D p))) t7 = (Some e, t')"
        | t8 where
          "deref (this_tracker this) (\<lambda>p. or_return_false (invoke TrackerAssociate2D (Associate2D p))) t7 = (None, t8)"
          "run (drop 8 (obstacle_block ex this)) t8 = (r, t')"
        unfolding run_Cons_result by blast
      then show ?thesis
      proof cases
        case 1
        then have "trace t' = trace t7 \<or> trace t' = trace t7 @ [Call TrackerAssociate2D (world t7)]"
          by (auto simp: deref_def or_return_false_def invoke_def split: option.splits prod.splits if_splits)
        with new(1) t6 t7 show ?thesis by auto
      next
        case 2
        then have t8: "trace t8 = trace t7 @ [Call TrackerAssociate2D (world t7)]"
          by (auto simp: deref_def or_return_false_def invoke_def split: option.splits prod.splits if_splits)
        from after_associate2D[of ex this] 2(2) obtain n where
          n: "trace t' = trace t8 @ n" "\<forall>e \<in> set n. not_associate2D e"
          unfolding behaves_def by blast
        with new(1) t8 t6 t7 have "w1 = world t7"
          by (auto simp: not_associate2D_def)
        with t7 show ?thesis by simp
      qed
    qed
  qed
qed

subsection \<open>The loop over the tracked objects\<close>

lemma fill_polygons_keeps:
  "fill_polygons fp as h = (x, h') \<Longrightarrow> h a = Some ob \<Longrightarrow> anchor_point ob = center ob \<Longrightarrow>
   polygon ob \<noteq> [] \<Longrightarrow> \<exists>ob'. h' a = Some ob' \<and> anchor_point ob' = center ob' \<and> polygon ob' \<noteq> []"
proof (induction as arbitrary: h ob)
  case Nil
  then show ?case by simp
next
  case (Cons b as)
  show ?case
  proof (cases "h b")
    case None
    with Cons.prems show ?thesis by simp
  next
    case (Some obb)
    define ob1 where "ob1 = FillObjectPolygonFromBBox3D fp obb"
    let ?h = "h(b \<mapsto> ob1\<lparr>anchor_point := center ob1\<rparr>)"
    from Cons.prems(1) Some have rec: "fill_polygons fp as ?h = (x, h')"
      by (simp add: ob1_def Let_def)
    have "polygon ob1 \<noteq> []"
      by (simp add: ob1_def FillObjectPolygonFromBBox3D_def split: prod.splits)
    with Cons.prems(2,3,4) obtain ob2 where "?h a = Some ob2" "anchor_point ob2 = center ob2" "polygon ob2 \<noteq> []"
      by (cases "a = b") auto
    from Cons.IH[OF rec this] show ?thesis .
  qed
qed

lemma fill_polygons_sets:
  "fill_polygons fp as h = (None, h') \<Longrightarrow> a \<in> set as \<Longrightarrow>
     \<exists>ob. h' a = Some ob \<and> anchor_point ob = center ob \<and> polygon ob \<noteq> []"
proof (induction as arbitrary: h)
  case Nil
  then show ?case by simp
next
  case (Cons b as)
  show ?case
  proof (cases "h b")
    case None
    with Cons.prems show ?thesis by simp
  next
    case (Some obb)
    define ob1 where "ob1 = FillObjectPolygonFromBBox3D fp obb"
    let ?h = "h(b \<mapsto> ob1\<lparr>anchor_point := center ob1\<rparr>)"
    from Cons.prems(1) Some have rec: "fill_polygons fp as ?h = (None, h')"
      by (simp add: ob1_def Let_def)
    have poly: "polygon ob1 \<noteq> []"
      by (simp add: ob1_def FillObjectPolygonFromBBox3D_def split: prod.splits)
    show ?thesis
    proof (cases "a = b")
      case True
      have "?h a = Some (ob1\<lparr>anchor_point := center ob1\<rparr>)" using True by simp
      from fill_polygons_keeps[OF rec this] poly show ?thesis by simp
    next
      case False
      with Cons.prems(2) have "a \<in> set as" by simp
      from Cons.IH[OF rec this] show ?thesis .
    qed
  qed
qed

lemma fill_polygon_and_set_anchor_point_result:
  assumes "fill_polygon_and_set_anchor_point ex s = (None, s')"
  shows "\<forall>a \<in> set (tracked_objects (frame (world s'))).
           \<exists>ob. objects (world s') a = Some ob \<and> anchor_point ob = center ob \<and> polygon ob \<noteq> []"
proof -
  obtain x h where f: "fill_polygons (footprint ex) (tracked_objects (frame (world s))) (objects (world s)) = (x, h)"
    by (cases "fill_polygons (footprint ex) (tracked_objects (frame (world s))) (objects (world s))")
  with assms have s': "s' = s\<lparr>world := (world s)\<lparr>objects := h\<rparr>\<rparr>" "x = None"
    by (simp_all add: fill_polygon_and_set_anchor_point_def)
  with f fill_polygons_sets have "\<forall>a \<in> set (tracked_objects (frame (world s))).
      \<exists>ob. h a = Some ob \<and> anchor_point ob = center ob \<and> polygon ob \<noteq> []"
    by blast
  with s' show ?thesis by simp
qed

lemma obstacle_block_ends_with_fill:
  "drop 15 (obstacle_block ex this) = [fill_polygon_and_set_anchor_point ex]"
  by (simp add: obstacle_block_def)

lemma Perception_returns_true:
  assumes "Perception ex this (initially w) = (Some (Returned True), s')"
  shows "\<exists>t. fill_polygon_and_set_anchor_point ex t = (None, s')"
proof -
  from assms obtain k where k: "this_name_intrinsic_map this (data_provider_sensor_name (frame w)) = Some k"
    by (cases "this_name_intrinsic_map this (data_provider_sensor_name (frame w))")
       (auto simp: Perception_unfold initially_def)
  define s1 where "s1 = (initially w)\<lparr>trace := trace (initially w) @ [SetDeviceId (gpu_id (this_perception_param this))],
                     world := (world (initially w))\<lparr>frame := (frame (world (initially w)))\<lparr>camera_k_matrix := k\<rparr>\<rparr>\<rparr>"
  from assms k have c: "calibration_service (frame w) \<noteq> None"
    by (auto simp: Perception_unfold initially_def Let_def split: if_splits)
  obtain r2 s2 where l: "lane_or_sync ex this s1 = (r2, s2)" by (cases "lane_or_sync ex this s1")
  from behaves_lane_or_sync[of lane_event ex this] l
  have r2: "r2 \<noteq> Some (Returned True)" unfolding behaves_def by blast
  obtain r3 s3 where o: "run (obstacle_block ex this) s2 = (r3, s3)"
    by (cases "run (obstacle_block ex this) s2")
  from behaves_obstacle_block[of this ex] o
  have r3: "r3 \<noteq> Some (Returned True)" unfolding behaves_def by blast
  from assms k c l o r2 r3 have "r2 = None" "r3 = None" "s' = s3"
    by (auto simp: Perception_unfold Let_def s1_def initially_def split: option.splits)
  with o have "run (obstacle_block ex this) s2 = (None, s')" by simp
  from run_take_drop_result[OF this, of 15] obtain t where
    "run [fill_polygon_and_set_anchor_point ex] t = (None, s')"
    unfolding obstacle_block_ends_with_fill by auto
  then show ?thesis by (auto simp: run_single simp del: run.simps)
qed

subsection \<open>Initialisation\<close>

text \<open>
  What each block of \<^verbatim>\<open>Init\<close> does to the configuration, the extractor, the local
  camera model and the log, and two facts about the whole of it.
\<close>

lemma CHECK_Init_result:
  "CHECK_Init k f opts s = (r, s') \<Longrightarrow>
     self s' = self s \<and> model s' = model s \<and> init_log s' = init_log s @ [InitCall k opts] \<and>
     (\<forall>b. r \<noteq> Some (Returned b))"
  by (auto simp: CHECK_Init_def CHECK_def split: prod.splits if_splits)

lemma read_config_result:
  "read_config env options s = (r, s') \<Longrightarrow> init_log s' = init_log s \<and> r \<noteq> Some (Returned True)"
  by (auto simp: read_config_def Let_def split: option.splits)

lemma init_detector_result:
  assumes "init_detector env wr dp s = (r, s')"
  shows "param s' = param s \<and>
         (\<forall>opts. InitCall TrackerPlugin opts \<in> set (init_log s') \<longrightarrow>
                 InitCall TrackerPlugin opts \<in> set (init_log s)) \<and>
         model s' = GetUndistortCameraModel env (camera_name dp) \<and>
         (r = None \<longrightarrow> (\<exists>m. model s' = Some m)) \<and> r \<noteq> Some (Returned True)"
  using assms
  by (auto simp: init_detector_def Let_def param_def split: option.splits
           dest!: CHECK_Init_result)

lemma init_detectors_loop:
  assumes "run (map (init_detector env wr) dps) s = (r, s')"
  shows "param s' = param s \<and>
         (\<forall>opts. InitCall TrackerPlugin opts \<in> set (init_log s') \<longrightarrow>
                 InitCall TrackerPlugin opts \<in> set (init_log s)) \<and>
         (r = None \<and> dps \<noteq> [] \<longrightarrow>
            (\<exists>m. model s' = Some m \<and>
                 GetUndistortCameraModel env (camera_name (last dps)) = Some m)) \<and>
         r \<noteq> Some (Returned True)"
  using assms
proof (induction dps arbitrary: s)
  case Nil
  then show ?case by simp
next
  case (Cons dp dps)
  from Cons.prems consider e where "init_detector env wr dp s = (Some e, s')" "r = Some e"
    | s1 where "init_detector env wr dp s = (None, s1)" "run (map (init_detector env wr) dps) s1 = (r, s')"
    unfolding list.map run_Cons_result by blast
  then show ?case
  proof cases
    case 1
    with init_detector_result[OF 1(1)] show ?thesis by simp
  next
    case 2
    note a = init_detector_result[OF 2(1)]
    note b = Cons.IH[OF 2(2)]
    show ?thesis
    proof (cases dps)
      case Nil
      with 2(2) have "s' = s1" "r = None" by simp_all
      with a Nil show ?thesis by (auto dest: sym)
    next
      case (Cons d ds)
      with a b show ?thesis by (auto dest: sym)
    qed
  qed
qed

lemma init_tracker_result:
  assumes "init_tracker env wr s = (r, s')"
  shows "param s' = param s \<and> this_extractor (self s') = this_extractor (self s) \<and>
         (\<forall>opts. InitCall TrackerPlugin opts \<in> set (init_log s') \<longrightarrow>
                 InitCall TrackerPlugin opts \<in> set (init_log s) \<or>
                 (\<exists>m. model s = Some m \<and> image_width opts = get_width m \<and> image_height opts = get_height m)) \<and>
         r \<noteq> Some (Returned True)"
  using assms
  by (auto simp: init_tracker_def deref_def Let_def param_def default_InitOptions_def
           split: option.splits dest!: CHECK_Init_result)

lemma init_transformer_aborts: "init_transformer env wr s = (r, s') \<Longrightarrow> r \<noteq> Some (Returned True)"
  by (auto simp: init_transformer_def Let_def split: option.splits dest!: CHECK_Init_result)

lemma init_postprocessor_aborts: "init_postprocessor env wr s = (r, s') \<Longrightarrow> r \<noteq> Some (Returned True)"
  by (auto simp: init_postprocessor_def Let_def split: option.splits dest!: CHECK_Init_result)

lemma init_feature_extractor_result:
  assumes "init_feature_extractor env wr s = (r, s')"
  shows "param s' = param s \<and>
         (\<forall>opts. InitCall TrackerPlugin opts \<in> set (init_log s') \<longrightarrow>
                 InitCall TrackerPlugin opts \<in> set (init_log s)) \<and>
         (r = None \<longrightarrow> (this_extractor (self s') = None) = (feature_param (param s) = None)) \<and>
         r \<noteq> Some (Returned True)"
  using assms
  by (auto simp: init_feature_extractor_def Let_def param_def split: option.splits
           dest!: CHECK_Init_result)

lemma init_quiet_run:
  assumes "\<And>c. c \<in> set cs \<Longrightarrow> init_quiet c"
  shows "init_quiet (run cs)"
  using assms
proof (induction cs)
  case Nil
  show ?case by (simp add: init_quiet_def)
next
  case (Cons c cs)
  have c: "init_quiet c" and cs: "init_quiet (run cs)"
    using Cons by simp_all
  show ?case
    unfolding init_quiet_def
  proof (intro allI impI)
    fix s r s'
    assume "run (c # cs) s = (r, s')"
    then consider e where "c s = (Some e, s')"
      | s1 where "c s = (None, s1)" "run cs s1 = (r, s')"
      unfolding run_Cons_result by blast
    then show "param s' = param s \<and> this_extractor (self s') = this_extractor (self s) \<and>
        (\<forall>opts. InitCall TrackerPlugin opts \<in> set (init_log s') \<longrightarrow>
                InitCall TrackerPlugin opts \<in> set (init_log s))"
    proof cases
      case 1
      with c show ?thesis unfolding init_quiet_def by blast
    next
      case 2
      from c 2(1) have "param s1 = param s \<and> this_extractor (self s1) = this_extractor (self s) \<and>
        (\<forall>opts. InitCall TrackerPlugin opts \<in> set (init_log s1) \<longrightarrow>
                InitCall TrackerPlugin opts \<in> set (init_log s))"
        unfolding init_quiet_def by blast
      moreover from cs 2(2) have "param s' = param s1 \<and> this_extractor (self s') = this_extractor (self s1) \<and>
        (\<forall>opts. InitCall TrackerPlugin opts \<in> set (init_log s') \<longrightarrow>
                InitCall TrackerPlugin opts \<in> set (init_log s1))"
        unfolding init_quiet_def by blast
      ultimately show ?thesis by simp
    qed
  qed
qed

lemma init_quiet_transformer: "init_quiet (init_transformer env wr)"
  by (auto simp: init_quiet_def init_transformer_def Let_def param_def split: option.splits
           dest!: CHECK_Init_result)

lemma init_quiet_postprocessor: "init_quiet (init_postprocessor env wr)"
  by (auto simp: init_quiet_def init_postprocessor_def Let_def param_def split: option.splits
           dest!: CHECK_Init_result)

lemma init_quiet_lane_detector: "init_quiet (init_lane_detector env wr pp)"
  by (auto simp: init_quiet_def init_lane_detector_def Let_def param_def split: option.splits
           dest!: CHECK_Init_result)

lemma init_quiet_lane_postprocessor: "init_quiet (init_lane_postprocessor env wr pp lpp)"
  by (auto simp: init_quiet_def init_lane_postprocessor_def Let_def param_def split: option.splits
           dest!: CHECK_Init_result)

lemma init_quiet_InitLane: "init_quiet (InitLane env wr)"
proof -
  have "init_quiet (run [init_lane_detector env wr pp, init_lane_postprocessor env wr pp lpp])" for pp lpp
    by (rule init_quiet_run) (auto simp: init_quiet_lane_detector init_quiet_lane_postprocessor)
  then show ?thesis
    by (auto simp: init_quiet_def InitLane_def simp del: run.simps split: option.splits)
qed

lemma init_quiet_InitCalibrationService: "init_quiet (InitCalibrationService env wr)"
  by (auto simp: init_quiet_def InitCalibrationService_def deref_def Let_def param_def split: option.splits
           dest!: CHECK_Init_result)

lemma init_quiet_debug_info: "init_quiet init_debug_info"
  by (auto simp: init_quiet_def init_debug_info_def open_stream_def Let_def param_def split: option.splits)

lemma init_quiet_object_template: "init_quiet (init_object_template env wr)"
  by (auto simp: init_quiet_def init_object_template_def Let_def param_def split: option.splits
           dest!: CHECK_Init_result)

lemma init_quiet_set_name:
  "init_quiet (\<lambda>s. (None, s\<lparr>self := (self s)\<lparr>this_lane_calibration_working_sensor_name := n\<rparr>\<rparr>))"
  by (simp add: init_quiet_def param_def)

lemma init_quiet_return: "init_quiet (return b)"
  by (simp add: init_quiet_def return_def)

lemma Init_tail_quiet: "init_quiet (run (drop 8 (Init_body env options)))"
  apply (rule init_quiet_run)
  apply (simp add: Init_body_def Let_def)
  apply (elim disjE; hypsubst)
  by (rule init_quiet_set_name init_quiet_InitLane init_quiet_InitCalibrationService
          init_quiet_debug_info init_quiet_object_template init_quiet_return)+

lemma Init_body_split:
  "Init_body env options =
     [read_config env options,
      (\<lambda>s. CHECK (set_device_id env (gpu_id (param s))) s),
      (\<lambda>s. CHECK (0 < length (detector_param (param s))) s),
      init_detectors env (work_root_of env options),
      init_tracker env (work_root_of env options),
      init_transformer env (work_root_of env options),
      init_postprocessor env (work_root_of env options),
      init_feature_extractor env (work_root_of env options)]
     @ drop 8 (Init_body env options)"
  by (simp add: Init_body_def Let_def)

lemma in_tracker_options:
  "opts \<in> set (tracker_options es) \<longleftrightarrow> InitCall TrackerPlugin opts \<in> set es"
  by (induction es rule: tracker_options.induct) auto

lemma Init_sized_by_last_camera:
  "establishes no_tracker_yet (Init env options) (sized_by_last_camera env) (\<lambda>e. sized_by_last_camera env)"
proof -
  let ?F = "\<lambda>e::exit. sized_by_last_camera env"
  let ?wr = "work_root_of env options"
  let ?I2 = "\<lambda>s. no_tracker_yet s \<and> detector_param (param s) \<noteq> []"
  let ?I3 = "\<lambda>s. no_tracker_yet s \<and> detector_param (param s) \<noteq> [] \<and>
                  (\<exists>m. model s = Some m \<and>
                       GetUndistortCameraModel env (camera_name (last (detector_param (param s)))) = Some m)"
  have N: "sized_by_last_camera env s" if "no_tracker_yet s" for s
    using that by (simp add: sized_by_last_camera_def no_tracker_yet_def)
  have c0: "establishes no_tracker_yet (read_config env options) no_tracker_yet ?F"
    by (rule establishesI) (auto dest!: read_config_result simp: no_tracker_yet_def sized_by_last_camera_def)
  have c1: "establishes no_tracker_yet (\<lambda>s. CHECK (set_device_id env (gpu_id (param s))) s) no_tracker_yet ?F"
    by (rule establishesI) (auto simp: CHECK_def N split: if_splits)
  have c2: "establishes no_tracker_yet (\<lambda>s. CHECK (0 < length (detector_param (param s))) s) ?I2 ?F"
    by (rule establishesI) (auto simp: CHECK_def N split: if_splits)
  have c3: "establishes ?I2 (init_detectors env ?wr) ?I3 ?F"
  proof (rule establishesI)
    fix s s'
    assume "?I2 s" "init_detectors env ?wr s = (None, s')"
    with init_detectors_loop[of env ?wr "detector_param (param s)" s None s']
    show "?I3 s'" by (auto simp: init_detectors_def no_tracker_yet_def)
  next
    fix s e s'
    assume "?I2 s" "init_detectors env ?wr s = (Some e, s')"
    with init_detectors_loop[of env ?wr "detector_param (param s)" s "Some e" s']
    have "no_tracker_yet s'" by (auto simp: init_detectors_def no_tracker_yet_def)
    then show "sized_by_last_camera env s'" by (rule N)
  qed
  have c4: "establishes ?I3 (init_tracker env ?wr) (sized_by_last_camera env) ?F"
  proof -
    have "sized_by_last_camera env s'" if "?I3 s" "init_tracker env ?wr s = (r, s')" for s r s'
      using init_tracker_result[OF that(2)] that(1)
      by (fastforce simp: sized_by_last_camera_def no_tracker_yet_def)
    then show ?thesis by (intro establishesI)
  qed
  have quiet: "establishes (sized_by_last_camera env) c (sized_by_last_camera env) ?F" if "init_quiet c" for c
  proof -
    have "sized_by_last_camera env s'" if "sized_by_last_camera env s" "c s = (r, s')" for s r s'
      using \<open>init_quiet c\<close> that unfolding init_quiet_def sized_by_last_camera_def by metis
    then show ?thesis by (intro establishesI)
  qed
  have c7: "establishes (sized_by_last_camera env) (init_feature_extractor env ?wr) (sized_by_last_camera env) ?F"
  proof -
    have "sized_by_last_camera env s'"
      if "sized_by_last_camera env s" "init_feature_extractor env ?wr s = (r, s')" for s r s'
      using init_feature_extractor_result[OF that(2)] that(1) unfolding sized_by_last_camera_def by metis
    then show ?thesis by (intro establishesI)
  qed
  show ?thesis
    unfolding Init_def
    apply (subst Init_body_split)
    apply (rule establishes_append[where P' = "sized_by_last_camera env"])
     apply (rule establishes_Cons[OF c0])
     apply (rule establishes_Cons[OF c1])
     apply (rule establishes_Cons[OF c2])
     apply (rule establishes_Cons[OF c3])
     apply (rule establishes_Cons[OF c4])
     apply (rule establishes_Cons[OF quiet[OF init_quiet_transformer]])
     apply (rule establishes_Cons[OF quiet[OF init_quiet_postprocessor]])
     apply (rule establishes_Cons[OF c7])
     apply (rule establishes_Nil, assumption)
    apply (rule quiet[OF Init_tail_quiet])
    done
qed

lemma Init_extractor_as_configured:
  "establishes (\<lambda>s. True) (Init env options) extractor_as_configured
     (\<lambda>e s'. e = Returned True \<longrightarrow> extractor_as_configured s')"
proof -
  let ?F = "\<lambda>e s'. e = Returned True \<longrightarrow> extractor_as_configured s'"
  let ?wr = "work_root_of env options"
  let ?T = "\<lambda>s::InitState. True"
  have aborts: "establishes ?T c ?T ?F" if "\<And>s r s'. c s = (r, s') \<Longrightarrow> r \<noteq> Some (Returned True)" for c
    using that by (intro establishesI) auto
  have c0: "establishes ?T (read_config env options) ?T ?F"
    by (rule aborts) (auto dest!: read_config_result)
  have c1: "establishes ?T (\<lambda>s. CHECK (b s) s) ?T ?F" for b
    by (rule aborts) (auto simp: CHECK_def split: if_splits)
  have c3: "establishes ?T (init_detectors env ?wr) ?T ?F"
    by (rule aborts) (auto simp: init_detectors_def dest!: init_detectors_loop)
  have c4: "establishes ?T (init_tracker env ?wr) ?T ?F"
    by (rule aborts) (auto dest!: init_tracker_result)
  have c5: "establishes ?T (init_transformer env ?wr) ?T ?F"
    by (rule aborts) (auto dest!: init_transformer_aborts)
  have c6: "establishes ?T (init_postprocessor env ?wr) ?T ?F"
    by (rule aborts) (auto dest!: init_postprocessor_aborts)
  have c7: "establishes ?T (init_feature_extractor env ?wr) extractor_as_configured ?F"
    by (rule establishesI) (auto dest!: init_feature_extractor_result simp: extractor_as_configured_def)
  have tail: "establishes extractor_as_configured (run (drop 8 (Init_body env options)))
                extractor_as_configured ?F"
  proof -
    have "extractor_as_configured s'"
      if "extractor_as_configured s" "run (drop 8 (Init_body env options)) s = (r, s')" for s r s'
      using Init_tail_quiet[of env options] that unfolding init_quiet_def extractor_as_configured_def
      by metis
    then show ?thesis by (intro establishesI) auto
  qed
  show ?thesis
    unfolding Init_def
    apply (subst Init_body_split)
    apply (rule establishes_append[where P' = extractor_as_configured])
     apply (rule establishes_Cons[OF c0])
     apply (rule establishes_Cons[OF c1])
     apply (rule establishes_Cons[OF c1])
     apply (rule establishes_Cons[OF c3])
     apply (rule establishes_Cons[OF c4])
     apply (rule establishes_Cons[OF c5])
     apply (rule establishes_Cons[OF c6])
     apply (rule establishes_Cons[OF c7])
     apply (rule establishes_Nil, assumption)
    apply (rule tail)
    done
qed

subsection \<open>The call that follows the calibration update\<close>

text \<open>
  In the lane block the update is reached only through the lane postprocessor, so the
  postprocessor is there when the update is called, and the statement after the update
  calls it. What the update reports does not enter the state: two calibrations that
  compute the same geometry and write the same to the frame give the same run.
\<close>

lemma after_update_unfold:
  "after_update ex w =
     (case calibration_service (frame w) of
        None \<Rightarrow> w
      | Some a \<Rightarrow> (update_writes ex w)\<lparr>services :=
                    (services w)(a := snd (Update (calibrate ex) (frame w) (services w a)))\<rparr>)"
  by (simp add: after_update_def calibration_service_Update_def initially_def
           split: option.splits prod.splits)

lemma lane_block_before_update:
  "behaves False not_update (run (take 2 (lane_block ex this)))"
  apply (rule behaves_run)
  apply (simp add: lane_block_def)
  apply (elim disjE; hypsubst)
  by (intro behaves_intros; simp add: not_update_def)+

lemma lane_block_reaches_update:
  assumes "run (take 2 (lane_block ex this)) s = (None, t)"
  shows "this_lane_postprocessor this \<noteq> None"
  using assms
  by (cases "this_lane_postprocessor this")
     (auto simp: lane_block_def deref_def split: option.splits prod.splits)

lemma lane_block_from_update:
  assumes run: "run (drop 2 (lane_block ex this)) t = (r, s')"
    and p: "this_lane_postprocessor this \<noteq> None"
  shows "s' = t \<or>
         (\<exists>rest. trace s' = trace t @ Call CalibrationUpdate (world t) #
                     Call LaneProcess3D (after_update ex (world t)) # rest \<and>
                  (\<forall>e \<in> set rest. not_update e))"
proof (cases "calibration_service (frame (world t))")
  case None
  with run show ?thesis
    by (simp add: lane_block_def calibration_service_Update_def)
next
  case (Some a)
  from p obtain pp where pp: "this_lane_postprocessor this = Some pp" by auto
  define t1 where "t1 = \<lparr>world = after_update ex (world t),
                         trace = trace t @ [Call CalibrationUpdate (world t)]\<rparr>"
  have u: "calibration_service_Update ex t = (None, t1)"
    using Some by (simp add: calibration_service_Update_def after_update_unfold t1_def split: prod.splits)
  obtain okk w' where f: "Process3D pp (world t1) = (okk, w')" by (cases "Process3D pp (world t1)")
  define t2 where "t2 = \<lparr>world = confine (world t1) w', trace = trace t1 @ [Call LaneProcess3D (world t1)]\<rparr>"
  have l: "deref (this_lane_postprocessor this) (\<lambda>p. or_return_false (invoke LaneProcess3D (Process3D p))) t1
             = (if okk then None else Some (Returned False), t2)"
    using pp f by (simp add: deref_def or_return_false_def invoke_def t2_def)
  have t2: "trace t2 = trace t @ [Call CalibrationUpdate (world t), Call LaneProcess3D (after_update ex (world t))]"
    by (simp add: t2_def t1_def)
  show ?thesis
  proof (cases okk)
    case False
    with run u l have "s' = t2" by (simp add: lane_block_def)
    with t2 show ?thesis by simp
  next
    case True
    with run u l obtain e where "trace s' = trace t2 @ [e]" "not_update e"
      by (auto simp: lane_block_def emit_def not_update_def)
    with t2 show ?thesis by simp
  qed
qed

lemma no_update_followed:
  "\<forall>e \<in> set (trace s). not_update e \<Longrightarrow> update_is_followed ex s"
  by (auto simp: update_is_followed_def not_update_def)

lemma update_is_followed_lane_block:
  assumes run: "run (lane_block ex this) s = (r, s')"
    and s: "\<forall>e \<in> set (trace s). not_update e"
  shows "update_is_followed ex s'"
proof -
  from run_take_drop_result[OF run, of 2]
  consider e where "run (take 2 (lane_block ex this)) s = (Some e, s')"
    | t where "run (take 2 (lane_block ex this)) s = (None, t)"
              "run (drop 2 (lane_block ex this)) t = (r, s')"
    by blast
  then show ?thesis
  proof cases
    case 1
    with lane_block_before_update[of ex this] s have "\<forall>e \<in> set (trace s'). not_update e"
      unfolding behaves_def by fastforce
    then show ?thesis by (rule no_update_followed)
  next
    case 2
    with lane_block_before_update[of ex this] s have t: "\<forall>e \<in> set (trace t). not_update e"
      unfolding behaves_def by fastforce
    from lane_block_from_update[OF 2(2) lane_block_reaches_update[OF 2(1)]]
    show ?thesis
    proof
      assume "s' = t"
      with t show ?thesis by (simp add: no_update_followed)
    next
      assume "\<exists>rest. trace s' = trace t @ Call CalibrationUpdate (world t) #
                     Call LaneProcess3D (after_update ex (world t)) # rest \<and>
                  (\<forall>e \<in> set rest. not_update e)"
      then obtain rest where tr: "trace s' = trace t @ Call CalibrationUpdate (world t) #
                     Call LaneProcess3D (after_update ex (world t)) # rest"
        and rest: "\<forall>e \<in> set rest. not_update e" by blast
      show ?thesis
        unfolding update_is_followed_def
      proof (intro allI impI)
        fix w1 assume "Call CalibrationUpdate w1 \<in> set (trace s')"
        with tr t rest have "w1 = world t" by (auto simp: not_update_def)
        with tr show "\<exists>pre post. trace s' =
           pre @ Call CalibrationUpdate w1 # Call LaneProcess3D (after_update ex w1) # post"
          by blast
      qed
    qed
  qed
qed

lemma update_is_followed_append:
  assumes "update_is_followed ex s" and "trace s' = trace s @ new" and "\<forall>e \<in> set new. not_update e"
  shows "update_is_followed ex s'"
  unfolding update_is_followed_def
proof (intro allI impI)
  fix w1 assume "Call CalibrationUpdate w1 \<in> set (trace s')"
  with assms(2,3) have "Call CalibrationUpdate w1 \<in> set (trace s)" by (auto simp: not_update_def)
  with assms(1) obtain pre post where
    "trace s = pre @ Call CalibrationUpdate w1 # Call LaneProcess3D (after_update ex w1) # post"
    unfolding update_is_followed_def by blast
  with assms(2) have "trace s' =
      pre @ Call CalibrationUpdate w1 # Call LaneProcess3D (after_update ex w1) # (post @ new)"
    by simp
  then show "\<exists>pre post. trace s' =
           pre @ Call CalibrationUpdate w1 # Call LaneProcess3D (after_update ex w1) # post"
    by blast
qed

lemma obstacle_block_no_update:
  "behaves False not_update (run (obstacle_block ex this))"
  apply (rule behaves_run)
  apply (simp add: obstacle_block_def)
  apply (elim disjE; hypsubst)
  by (intro behaves_intros; simp add: not_update_def)+

lemma Perception_update_is_followed:
  assumes run: "Perception ex this (initially w) = (r, s')"
    and working: "this_lane_calibration_working_sensor_name this = data_provider_sensor_name (frame w)"
  shows "update_is_followed ex s'"
proof (cases "this_name_intrinsic_map this (data_provider_sensor_name (frame w))")
  case None
  with run show ?thesis
    by (auto simp: Perception_unfold initially_def intro!: no_update_followed simp: not_update_def)
next
  case (Some k)
  define s1 where "s1 = (initially w)\<lparr>trace := trace (initially w) @ [SetDeviceId (gpu_id (this_perception_param this))],
                     world := (world (initially w))\<lparr>frame := (frame (world (initially w)))\<lparr>camera_k_matrix := k\<rparr>\<rparr>\<rparr>"
  have s1: "\<forall>e \<in> set (trace s1). not_update e"
    "data_provider_sensor_name (frame (world s1)) = data_provider_sensor_name (frame w)"
    by (simp_all add: s1_def initially_def not_update_def)
  show ?thesis
  proof (cases "calibration_service (frame w) = None")
    case True
    with run Some have "s' = s1" by (auto simp: Perception_unfold initially_def Let_def s1_def)
    with s1 show ?thesis by (simp add: no_update_followed)
  next
    case False
    obtain r2 s2 where l: "lane_or_sync ex this s1 = (r2, s2)" by (cases "lane_or_sync ex this s1")
    with working s1 have "run (lane_block ex this) s1 = (r2, s2)"
      by (simp add: lane_or_sync_def)
    from update_is_followed_lane_block[OF this s1(1)] have u2: "update_is_followed ex s2" .
    show ?thesis
    proof (cases r2)
      case (Some e)
      with run \<open>this_name_intrinsic_map this _ = Some k\<close> False l
      have "s' = s2" by (simp add: Perception_unfold Let_def s1_def initially_def)
      with u2 show ?thesis by simp
    next
      case None
      obtain r3 s3 where o: "run (obstacle_block ex this) s2 = (r3, s3)"
        by (cases "run (obstacle_block ex this) s2")
      from run \<open>this_name_intrinsic_map this _ = Some k\<close> False l None o
      have "s' = s3" by (auto simp: Perception_unfold Let_def s1_def initially_def split: option.splits)
      moreover from obstacle_block_no_update[of ex this] o obtain new where
        "trace s3 = trace s2 @ new" "\<forall>e \<in> set new. not_update e"
        unfolding behaves_def by blast
      ultimately show ?thesis using update_is_followed_append[OF u2] by blast
    qed
  qed
qed

lemma calibration_service_Update_snd:
  "calibration_service_Update ex s =
     (case calibration_service (frame (world s)) of
        None \<Rightarrow> (Some (Aborted NullDereference), s)
      | Some a \<Rightarrow>
         (None, \<lparr>world = (update_writes ex (world s))\<lparr>services := (services (world s))
                    (a := snd (Update (calibrate ex) (frame (world s)) (services (world s) a)))\<rparr>,
                 trace = trace s @ [Call CalibrationUpdate (world s)]\<rparr>))"
  by (simp add: calibration_service_Update_def split: option.splits prod.splits)

lemma Update_status_unread:
  assumes "\<forall>l g. snd (calibrate ex' l g) = snd (calibrate ex l g)"
    and writes: "update_writes ex' = update_writes ex"
  shows "calibration_service_Update ex' = calibration_service_Update ex"
proof
  fix s :: PerceptionState
  have same: "snd (Update (calibrate ex') fr cs) = snd (Update (calibrate ex) fr cs)" for fr cs
    using assms(1)[rule_format, of "lane_objects fr" "geometry cs"]
    by (auto simp: Update_def split: prod.splits)
  show "calibration_service_Update ex' s = calibration_service_Update ex s"
    by (simp add: calibration_service_Update_snd same writes split: option.splits)
qed

lemma Perception_status_unread:
  assumes "footprint ex' = footprint ex"
    and "\<forall>l g. snd (calibrate ex' l g) = snd (calibrate ex l g)"
    and "update_writes ex' = update_writes ex"
  shows "Perception ex' this = Perception ex this"
proof -
  have 1: "fill_polygon_and_set_anchor_point ex' = fill_polygon_and_set_anchor_point ex"
    using assms(1) by (auto simp: fill_polygon_and_set_anchor_point_def)
  have 2: "lane_block ex' this = lane_block ex this"
    by (simp add: lane_block_def Update_status_unread[OF assms(2,3)])
  have 3: "lane_or_sync ex' this = lane_or_sync ex this"
    by (rule ext) (simp add: lane_or_sync_def 2 Update_status_unread[OF assms(2,3)])
  have 4: "obstacle_block ex' this = obstacle_block ex this"
    by (simp add: obstacle_block_def 1)
  show ?thesis by (simp add: Perception_def 3 4)
qed

subsection \<open>The pointer to the calibration service\<close>

text \<open>
  When every stage before the obstacle postprocessor and the calibration update leave the
  frame's pointer to its calibration service alone, the pointer that passed the check of
  line 302 is still there at line 414.
\<close>

lemma establishes_all:
  assumes "\<And>c. c \<in> set cs \<Longrightarrow> establishes I c I F"
  shows "establishes I (run cs) I F"
  using assms
proof (induction cs)
  case Nil
  show ?case by (rule establishes_Nil)
next
  case (Cons c cs)
  show ?case
    by (rule establishes_Cons[where P' = I]) (simp_all add: Cons)
qed

lemma held_emit:
  assumes "\<And>w. not_postprocess (e w)"
  shows "establishes reference_held (emit e) reference_held (\<lambda>e. flags_true)"
proof -
  have "Call (ObstaclePostprocess False) w' \<noteq> e w" for w w'
    using assms[of w] by (metis not_postprocess_def)
  then show ?thesis
    by (intro establishesI) (auto simp: emit_def reference_held_def flags_true_def)
qed

lemma held_stage:
  assumes keep: "keeps_reference f" and g: "\<And>b. g \<noteq> ObstaclePostprocess b"
  shows "establishes reference_held (or_return_false (invoke g f)) reference_held (\<lambda>e. flags_true)"
proof -
  have step: "reference_held s'"
    if h: "reference_held s" and c: "or_return_false (invoke g f) s = (r, s')" for s r s'
  proof -
    obtain okk w' where f: "f (world s) = (okk, w')" by (cases "f (world s)")
    from c f have w: "world s' = confine (world s) w'"
      and t: "trace s' = trace s @ [Call g (world s)]"
      by (auto simp: or_return_false_def invoke_def)
    from keep have "calibration_service (frame (snd (f (world s)))) =
        calibration_service (frame (world s))"
      by (simp add: keeps_reference_def)
    with f have p: "calibration_service (frame w') = calibration_service (frame (world s))"
      by simp
    from h w p have 1: "calibration_service (frame (world s')) \<noteq> None"
      by (simp add: reference_held_def confine_def)
    from g[of False] have "ObstaclePostprocess False \<noteq> g" by (rule not_sym)
    with h t have 2: "flags_true s'"
      by (simp add: reference_held_def flags_true_def)
    from 1 2 show ?thesis by (simp add: reference_held_def)
  qed
  show ?thesis
  proof (rule establishesI)
    fix s s' assume "reference_held s" "or_return_false (invoke g f) s = (None, s')"
    then show "reference_held s'" by (rule step)
  next
    fix s e s' assume "reference_held s" "or_return_false (invoke g f) s = (Some e, s')"
    then have "reference_held s'" by (rule step)
    then show "flags_true s'" by (simp add: reference_held_def)
  qed
qed

lemma held_deref:
  assumes "\<And>x. p = Some x \<Longrightarrow> establishes reference_held (k x) reference_held (\<lambda>e. flags_true)"
  shows "establishes reference_held (deref p k) reference_held (\<lambda>e. flags_true)"
proof (cases p)
  case None
  then show ?thesis
    by (intro establishesI) (auto simp: deref_def reference_held_def)
next
  case (Some x)
  with assms[OF Some] show ?thesis
    by (simp add: establishes_def deref_def)
qed

lemma held_skip:
  assumes "\<And>s r s'. c s = (r, s') \<Longrightarrow> trace s' = trace s \<and>
             calibration_service (frame (world s')) = calibration_service (frame (world s))"
  shows "establishes reference_held c reference_held (\<lambda>e. flags_true)"
  by (rule establishesI) (auto dest!: assms simp: reference_held_def flags_true_def)

lemma held_set_sensor_name:
  "establishes reference_held set_sensor_name_of_each_object reference_held (\<lambda>e. flags_true)"
  by (rule held_skip) (auto simp: set_sensor_name_of_each_object_def split: prod.splits)

lemma held_Update:
  assumes "update_keeps_reference ex"
  shows "establishes reference_held (calibration_service_Update ex) reference_held (\<lambda>e. flags_true)"
  using assms
  by (intro establishesI)
     (auto simp: calibration_service_Update_def reference_held_def flags_true_def
                 update_keeps_reference_def
           split: option.splits prod.splits)

lemma held_detect:
  assumes "stages_keep_reference this"
  shows "establishes reference_held (detect this) reference_held (\<lambda>e. flags_true)"
proof -
  have "establishes reference_held (deref d (\<lambda>p. or_return_false (invoke ObstacleDetect (Detect p))))
          reference_held (\<lambda>e. flags_true)"
    if "this_name_detector_map this n = Some d" for n d
  proof (rule held_deref, rule held_stage)
    fix p assume "d = Some p"
    with assms that show "keeps_reference (Detect p)"
      by (simp add: stages_keep_reference_def)
  qed simp
  then show ?thesis
    by (auto simp: establishes_def detect_def reference_held_def split: option.splits)
qed

lemma held_extract:
  assumes "stages_keep_reference this"
  shows "establishes reference_held (extract_features this) reference_held (\<lambda>e. flags_true)"
proof (cases "this_extractor this")
  case None
  then show ?thesis by (intro establishesI) (auto simp: extract_features_def)
next
  case (Some p)
  with assms have "keeps_reference (Extract p)"
    by (simp add: stages_keep_reference_def)
  then have "establishes reference_held (or_return_false (invoke FeatureExtract (Extract p)))
          reference_held (\<lambda>e. flags_true)"
    by (rule held_stage) simp
  with Some show ?thesis by (simp add: establishes_def extract_features_def)
qed

lemma held_lane_or_sync:
  assumes "stages_keep_reference this" and update: "update_keeps_reference ex"
  shows "establishes reference_held (lane_or_sync ex this) reference_held (\<lambda>e. flags_true)"
proof -
  have 1: "establishes reference_held (run (lane_block ex this)) reference_held (\<lambda>e. flags_true)"
    using assms(1)
    apply -
    apply (rule establishes_all)
    apply (simp add: lane_block_def)
    apply (elim disjE; hypsubst)
    by (intro held_deref held_stage held_Update[OF update] held_emit;
        simp add: stages_keep_reference_def not_postprocess_def)+
  have 2: "establishes reference_held (run [calibration_service_Update ex]) reference_held (\<lambda>e. flags_true)"
    by (rule establishes_all) (auto intro!: held_Update[OF update])
  from 1 2 show ?thesis
    by (auto simp: establishes_def lane_or_sync_def split: if_splits)
qed

lemma held_before_postprocess:
  assumes "stages_keep_reference this"
  shows "establishes reference_held (run (take 9 (obstacle_block ex this))) reference_held (\<lambda>e. flags_true)"
  using assms
  apply -
  apply (rule establishes_all)
  apply (simp add: obstacle_block_def)
  apply (elim disjE; hypsubst)
  by (intro held_deref held_stage held_emit held_detect held_extract held_set_sensor_name;
      simp add: stages_keep_reference_def not_postprocess_def)+

lemma held_postprocess:
  "establishes reference_held (postprocess this) flags_true (\<lambda>e. flags_true)"
  by (rule establishesI)
     (auto simp: postprocess_def Let_def deref_def or_return_false_def invoke_def
                 reference_held_def flags_true_def
           split: option.splits prod.splits if_splits)

lemma after_postprocess:
  "behaves False not_postprocess (run (drop 10 (obstacle_block ex this)))"
  apply (rule behaves_run)
  apply (simp add: obstacle_block_def)
  apply (elim disjE; hypsubst)
  by (intro behaves_intros; simp add: not_postprocess_def)+

lemma flags_after_postprocess:
  "establishes flags_true (run (drop 10 (obstacle_block ex this))) flags_true (\<lambda>e. flags_true)"
proof -
  have "flags_true s'" if "flags_true s" "run (drop 10 (obstacle_block ex this)) s = (r, s')" for s r s'
  proof -
    from after_postprocess[of ex this] that(2) obtain new where
      "trace s' = trace s @ new" "\<forall>e \<in> set new. not_postprocess e"
      unfolding behaves_def by blast
    with that(1) show ?thesis by (auto simp: flags_true_def not_postprocess_def)
  qed
  then show ?thesis by (intro establishesI)
qed

lemma obstacle_block_at_postprocess:
  "obstacle_block ex this =
     take 9 (obstacle_block ex this) @ postprocess this # drop 10 (obstacle_block ex this)"
  by (simp add: obstacle_block_def)

lemma held_obstacle_block:
  assumes "stages_keep_reference this"
  shows "establishes reference_held (run (obstacle_block ex this)) flags_true (\<lambda>e. flags_true)"
  apply (subst obstacle_block_at_postprocess)
  apply (rule establishes_append[OF held_before_postprocess[OF assms]])
  apply (rule establishes_Cons[OF held_postprocess])
  apply (rule flags_after_postprocess)
  done

lemma Perception_flags_true:
  assumes run: "Perception ex this (initially w) = (r, s')" and keep: "stages_keep_reference this"
    and update: "update_keeps_reference ex"
  shows "flags_true s'"
proof (cases "this_name_intrinsic_map this (data_provider_sensor_name (frame w))")
  case None
  with run show ?thesis by (auto simp: Perception_unfold initially_def flags_true_def)
next
  case (Some k)
  define s1 where "s1 = (initially w)\<lparr>trace := trace (initially w) @ [SetDeviceId (gpu_id (this_perception_param this))],
                     world := (world (initially w))\<lparr>frame := (frame (world (initially w)))\<lparr>camera_k_matrix := k\<rparr>\<rparr>\<rparr>"
  have s1: "flags_true s1" "calibration_service (frame (world s1)) = calibration_service (frame w)"
    by (simp_all add: s1_def initially_def flags_true_def)
  show ?thesis
  proof (cases "calibration_service (frame w) = None")
    case True
    with run Some have "s' = s1" by (auto simp: Perception_unfold initially_def Let_def s1_def)
    with s1 show ?thesis by simp
  next
    case False
    with s1 have h1: "reference_held s1" by (simp add: reference_held_def)
    obtain r2 s2 where l: "lane_or_sync ex this s1 = (r2, s2)" by (cases "lane_or_sync ex this s1")
    show ?thesis
    proof (cases r2)
      case (Some e)
      with run \<open>this_name_intrinsic_map this _ = Some k\<close> False l
      have "s' = s2" by (simp add: Perception_unfold Let_def s1_def initially_def)
      with held_lane_or_sync[OF keep update] h1 l Some show ?thesis
        unfolding establishes_def by fastforce
    next
      case None
      with held_lane_or_sync[OF keep update] h1 l have h2: "reference_held s2"
        unfolding establishes_def by fastforce
      obtain r3 s3 where o: "run (obstacle_block ex this) s2 = (r3, s3)"
        by (cases "run (obstacle_block ex this) s2")
      from run \<open>this_name_intrinsic_map this _ = Some k\<close> False l None o
      have "s' = s3" by (auto simp: Perception_unfold Let_def s1_def initially_def split: option.splits)
      with held_obstacle_block[OF keep, of ex] h2 o show ?thesis
        unfolding establishes_def by (fastforce split: option.splits)
    qed
  qed
qed

subsection \<open>The example deployment, evaluated\<close>

lemmas example_defs = example_pipeline_def example_world_def example_frame_def example_externals_def
  example_param_def example_detector_def example_tracker_def example_transformer_def
  example_postprocessor_def example_lane_detector_def example_lane_postprocessor_def
  example_object_def ok_def initially_def

lemmas statement_defs = emit_def or_return_false_def invoke_def confine_def deref_def CHECK_def
  return_def resolve_camera_k_matrix_def calibration_service_Update_def Update_def
  set_sensor_name_of_each_object_def fill_polygon_and_set_anchor_point_def
  FillObjectPolygonFromBBox3D_def lane_or_sync_def lane_block_def detect_def extract_features_def
  postprocess_def obstacle_block_def has_def str_def has_debug_param_def debug_param_def
  default_DebugParam_def

lemma example_run_12mm:
  "fst (Perception example_externals example_pipeline (initially (example_world ''front_12mm''))) = Some (Returned True) \<and>
   called (trace (snd (Perception example_externals example_pipeline (initially (example_world ''front_12mm''))))) =
     [CalibrationUpdate, TrackerPredict, ObstacleDetect, TrackerAssociate2D, ObstacleTransform,
      ObstaclePostprocess True, TrackerAssociate3D, TrackerTrack]"
  by (simp add: Perception_unfold example_defs statement_defs)

lemma example_run_6mm:
  "fst (Perception example_externals example_pipeline (initially (example_world ''front_6mm''))) = Some (Returned True) \<and>
   called (trace (snd (Perception example_externals example_pipeline (initially (example_world ''front_6mm''))))) =
     [LaneDetect, LaneProcess2D, CalibrationUpdate, LaneProcess3D, TrackerPredict, ObstacleDetect, TrackerAssociate2D, ObstacleTransform,
      ObstaclePostprocess True, TrackerAssociate3D, TrackerTrack]"
  by (simp add: Perception_unfold example_defs statement_defs)

lemmas init_defs = Init_def Init_body_def read_config_def init_detectors_def init_detector_def
  init_tracker_def init_transformer_def init_postprocessor_def init_feature_extractor_def
  InitLane_def init_lane_detector_def init_lane_postprocessor_def InitCalibrationService_def
  init_debug_info_def open_stream_def init_object_template_def CHECK_Init_def CHECK_def deref_def
  return_def map_insert_def work_root_of_def param_def new_InitState_def constructed_def
  default_InitOptions_def

lemmas example_init_defs = example_env_def example_options_def example_param_def example_camera_def
  example_plugin_param_def example_detector_def example_tracker_def example_transformer_def
  example_postprocessor_def example_lane_detector_def example_lane_postprocessor_def init_ok_def

lemma example_Init:
  "fst (Init example_env example_options (new_InitState undefined)) = Some (Returned True) \<and>
   self (snd (Init example_env example_options (new_InitState undefined))) = example_pipeline"
  by (simp add: init_defs example_init_defs example_pipeline_def Let_def)

lemma example_Init_tracker:
  "map (\<lambda>opts. (image_width opts, image_height opts))
     (tracker_options (init_log (snd (Init example_env example_options (new_InitState undefined))))) =
   [(1280, 720)]"
  by (simp add: init_defs example_init_defs Let_def)

lemma example_update_keeps_reference: "update_keeps_reference example_externals"
  by (simp add: update_keeps_reference_def example_externals_def)

lemma example_stages_keep_reference: "stages_keep_reference example_pipeline"
  by (auto simp: stages_keep_reference_def keeps_reference_def example_defs split: if_splits)

subsection \<open>Claims\<close>

text \<open>
  C10. \<^verbatim>\<open>GetCalibrationService\<close> returns true on every call and writes the member
  \<^verbatim>\<open>calibration_service_\<close> to the out-parameter, whatever it holds. On an object on which
  \<^verbatim>\<open>Init\<close> has not run it returns true and hands back the null pointer.
\<close>

theorem GetCalibrationService_always_true:
  "GetCalibrationService this = (True, this_calibration_service this) \<and>
   GetCalibrationService constructed = (True, None)"
  by (simp add: GetCalibrationService_def constructed_def)

text \<open>
  C3. A frame whose sensor is not a key of \<^verbatim>\<open>name_intrinsic_map_\<close> makes
  \<^verbatim>\<open>Perception\<close> leave with the exception of \<^verbatim>\<open>std::map::at\<close>, the unknown-sensor
  error. The world is as it was and the trace holds the device binding only: no stage was
  called. The error is not a return value, whereas a stage that reports failure, on any
  frame, makes \<^verbatim>\<open>Perception\<close> return false: the two cannot be confused.
\<close>

theorem unknown_sensor_throws_at_frame_start:
  assumes "this_name_intrinsic_map this (data_provider_sensor_name (frame (world s))) = None"
  shows "fst (Perception ex this s) = Some (Aborted OutOfRange) \<and>
         (\<forall>b. fst (Perception ex this s) \<noteq> Some (Returned b)) \<and>
         world (snd (Perception ex this s)) = world s \<and>
         trace (snd (Perception ex this s)) =
           trace s @ [SetDeviceId (gpu_id (this_perception_param this))] \<and>
         (\<forall>w r s' e. Perception ex this (initially w) = (r, s') \<and> e \<in> set (trace s') \<and>
                     reports_failure this e \<longrightarrow> r = Some (Returned False))"
proof -
  have here: "fst (Perception ex this s) = Some (Aborted OutOfRange) \<and>
         (\<forall>b. fst (Perception ex this s) \<noteq> Some (Returned b)) \<and>
         world (snd (Perception ex this s)) = world s \<and>
         trace (snd (Perception ex this s)) =
           trace s @ [SetDeviceId (gpu_id (this_perception_param this))]"
    using assms by (simp add: Perception_unfold)
  have "r = Some (Returned False)"
    if "Perception ex this (initially w) = (r, s')" "e \<in> set (trace s')" "reports_failure this e"
    for w r s' e
    using failed_call_is_last[OF that] by simp
  then have elsewhere: "\<forall>w r s' e. Perception ex this (initially w) = (r, s') \<and> e \<in> set (trace s') \<and>
                     reports_failure this e \<longrightarrow> r = Some (Returned False)"
    by blast
  from here elsewhere show ?thesis by (intro conjI) (elim conjE, assumption)+
qed

theorem unknown_sensor_throws_at_frame_start_witness:
  "this_name_intrinsic_map example_pipeline
     (data_provider_sensor_name (frame (world (initially (example_world ''rear''))))) = None \<and>
   fst (Perception example_externals example_pipeline (initially (example_world ''rear''))) =
     Some (Aborted OutOfRange) \<and>
   trace (snd (Perception example_externals example_pipeline (initially (example_world ''rear'')))) =
     [SetDeviceId 0]"
  using unknown_sensor_throws_at_frame_start
          [of example_pipeline "initially (example_world ''rear'')" example_externals]
  by (simp add: example_defs)

text \<open>
  C9, as the claim states it, fails when a stage resets the pointer: \<^verbatim>\<open>Perception\<close>
  hands \<^verbatim>\<open>frame\<close> to the calls of lines 309-406 and reads
  \<^verbatim>\<open>frame->calibration_service\<close> afresh at line 414. In the example deployment with a
  transformer that succeeds and resets the pointer, the frame passes the check of line 302,
  the obstacle postprocessor is called with the flag false, and \<^verbatim>\<open>Perception\<close>
  returns true.
\<close>

theorem reset_reference_reaches_false_branch:
  "calibration_service (frame (example_world ''front_12mm'')) \<noteq> None \<and>
   fst (Perception example_externals (example_pipeline\<lparr>this_transformer := Some resetting_transformer\<rparr>)
          (initially (example_world ''front_12mm''))) = Some (Returned True) \<and>
   called (trace (snd (Perception example_externals
          (example_pipeline\<lparr>this_transformer := Some resetting_transformer\<rparr>)
          (initially (example_world ''front_12mm''))))) =
     [CalibrationUpdate, TrackerPredict, ObstacleDetect, TrackerAssociate2D, ObstacleTransform,
      ObstaclePostprocess False, TrackerAssociate3D, TrackerTrack]"
  by (simp add: Perception_unfold example_defs statement_defs resetting_transformer_def)

text \<open>
  C9, amended. Whenever the obstacle postprocessor is called, the flag
  \<^verbatim>\<open>do_refinement_with_calibration_service\<close> it is given tells whether the frame's pointer
  to its calibration service is non-null at that call, and the pointer was non-null when
  \<^verbatim>\<open>Perception\<close> started. The flag is true whenever every call made before the obstacle
  postprocessor (lane detection, lane 2D and 3D postprocessing, the calibration update,
  tracker prediction, detection, feature extraction, 2D association, transform) leaves that
  pointer as it found it.
\<close>

theorem refinement_flag_follows_the_reference:
  assumes run: "Perception ex this (initially w) = (r, s')"
    and call: "Call (ObstaclePostprocess b) w1 \<in> set (trace s')"
  shows "b = (calibration_service (frame w1) \<noteq> None) \<and>
         calibration_service (frame w) \<noteq> None \<and>
         (stages_keep_reference this \<and> update_keeps_reference ex \<longrightarrow> b)"
proof -
  from Perception_trace[OF run] obtain lane obst where
    t: "trace s' = SetDeviceId (gpu_id (this_perception_param this)) # lane @ obst"
    and lane: "\<forall>e \<in> set lane. lane_event e"
    and obst: "\<forall>e \<in> set obst. obstacle_event this e"
    and none: "calibration_service (frame w) = None \<longrightarrow> lane = [] \<and> obst = []"
    by auto
  from call t lane have in_obst: "Call (ObstaclePostprocess b) w1 \<in> set obst"
    by (auto simp: lane_event_def)
  with obst have 1: "b = (calibration_service (frame w1) \<noteq> None)"
    by (auto simp: obstacle_event_def simp del: not_None_eq)
  from in_obst none have 2: "calibration_service (frame w) \<noteq> None" by auto
  have 3: "b" if "stages_keep_reference this" "update_keeps_reference ex"
    using Perception_flags_true[OF run that] call by (cases b) (auto simp: flags_true_def)
  from 1 2 3 show ?thesis by blast
qed

theorem refinement_flag_follows_the_reference_witness:
  "\<exists>r s' w1. Perception example_externals example_pipeline (initially (example_world ''front_12mm'')) = (r, s') \<and>
     stages_keep_reference example_pipeline \<and> update_keeps_reference example_externals \<and>
     Call (ObstaclePostprocess True) w1 \<in> set (trace s') \<and>
     calibration_service (frame w1) \<noteq> None \<and>
     calibration_service (frame (example_world ''front_12mm'')) \<noteq> None"
proof -
  obtain r s' where run: "Perception example_externals example_pipeline (initially (example_world ''front_12mm'')) = (r, s')"
    by (cases "Perception example_externals example_pipeline (initially (example_world ''front_12mm''))")
  with example_run_12mm have "ObstaclePostprocess True \<in> set (called (trace s'))"
    by simp
  then obtain w1 where w1: "Call (ObstaclePostprocess True) w1 \<in> set (trace s')"
    unfolding in_called by blast
  from refinement_flag_follows_the_reference[OF run w1] run w1 example_stages_keep_reference
    example_update_keeps_reference
  show ?thesis by blast
qed

text \<open>
  C1. For a frame whose sensor is not the calibration-working sensor, \<^verbatim>\<open>Perception\<close>
  calls none of lane detection, lane 2D postprocessing and lane 3D postprocessing. Once the
  intrinsics are resolved and the calibration service is there, its first call is the
  update of the frame's calibration service, and it makes no second one. When that service
  is configured for the pipeline's working sensor, its geometry after the call is the
  geometry before it, and so is every other service.
\<close>

theorem other_sensor_skips_lane_stages:
  assumes run: "Perception ex this (initially w) = (r, s')"
    and other: "data_provider_sensor_name (frame w) \<noteq> this_lane_calibration_working_sensor_name this"
  shows "LaneDetect \<notin> set (called (trace s')) \<and> LaneProcess2D \<notin> set (called (trace s')) \<and>
         LaneProcess3D \<notin> set (called (trace s')) \<and>
         (\<forall>k a. this_name_intrinsic_map this (data_provider_sensor_name (frame w)) = Some k \<and>
                calibration_service (frame w) = Some a \<longrightarrow>
            (\<exists>rest. trace s' = [SetDeviceId (gpu_id (this_perception_param this)),
                                Call CalibrationUpdate (w\<lparr>frame := (frame w)\<lparr>camera_k_matrix := k\<rparr>\<rparr>)] @ rest \<and>
                    CalibrationUpdate \<notin> set (called rest))) \<and>
         (\<forall>a. calibration_service (frame w) = Some a \<and>
              calibrator_working_sensor_name (services w a) = this_lane_calibration_working_sensor_name this \<longrightarrow>
            geometry (services (world s') a) = geometry (services w a) \<and>
            services (world s') = services w)"
proof (cases "this_name_intrinsic_map this (data_provider_sensor_name (frame w))")
  case None
  with run have "trace s' = [SetDeviceId (gpu_id (this_perception_param this))]" "world s' = w"
    by (auto simp: Perception_unfold initially_def)
  with None show ?thesis by simp
next
  case (Some k)
  show ?thesis
  proof (cases "calibration_service (frame w)")
    case None
    with run Some have "trace s' = [SetDeviceId (gpu_id (this_perception_param this))]"
      by (auto simp: Perception_unfold initially_def Let_def)
    with None show ?thesis by simp
  next
    case a: (Some a)
    from Perception_other_sensor[OF run other Some a] obtain obst where
      t: "trace s' = [SetDeviceId (gpu_id (this_perception_param this)),
                      Call CalibrationUpdate (w\<lparr>frame := (frame w)\<lparr>camera_k_matrix := k\<rparr>\<rparr>)] @ obst"
      and obst: "\<forall>e \<in> set obst. obstacle_event this e"
      and sv: "services (world s') = (services w)
                  (a := snd (Update (calibrate ex) ((frame w)\<lparr>camera_k_matrix := k\<rparr>) (services w a)))"
      by auto
    have no: "g \<notin> set (called obst)" if "g \<in> {LaneDetect, LaneProcess2D, CalibrationUpdate, LaneProcess3D}" for g
      using obst that unfolding in_called by (auto simp: obstacle_event_def)
    have 1: "LaneDetect \<notin> set (called (trace s'))" "LaneProcess2D \<notin> set (called (trace s'))"
      "LaneProcess3D \<notin> set (called (trace s'))"
      using no by (simp_all add: t)
    have 2: "\<exists>rest. trace s' = [SetDeviceId (gpu_id (this_perception_param this)),
                                Call CalibrationUpdate (w\<lparr>frame := (frame w)\<lparr>camera_k_matrix := k\<rparr>\<rparr>)] @ rest \<and>
                    CalibrationUpdate \<notin> set (called rest)"
      using t no by blast
    have 3: "services (world s') = services w"
      if "calibrator_working_sensor_name (services w a) = this_lane_calibration_working_sensor_name this"
      using that other sv by (simp add: Update_other_sensor)
    from 1 2 3 Some a show ?thesis by simp
  qed
qed

theorem other_sensor_skips_lane_stages_witness:
  "\<exists>r s'. Perception example_externals example_pipeline (initially (example_world ''front_12mm'')) = (r, s') \<and>
     data_provider_sensor_name (frame (example_world ''front_12mm'')) \<noteq>
       this_lane_calibration_working_sensor_name example_pipeline \<and>
     calibration_service (frame (example_world ''front_12mm'')) = Some 0 \<and>
     calibrator_working_sensor_name (services (example_world ''front_12mm'') 0) =
       this_lane_calibration_working_sensor_name example_pipeline \<and>
     LaneDetect \<notin> set (called (trace s')) \<and>
     CalibrationUpdate \<in> set (called (trace s')) \<and>
     geometry (services (world s') 0) = geometry (services (example_world ''front_12mm'') 0)"
proof -
  obtain r s' where run: "Perception example_externals example_pipeline (initially (example_world ''front_12mm'')) = (r, s')"
    by (cases "Perception example_externals example_pipeline (initially (example_world ''front_12mm''))")
  have other: "data_provider_sensor_name (frame (example_world ''front_12mm'')) \<noteq>
       this_lane_calibration_working_sensor_name example_pipeline"
    by (simp add: example_defs)
  have cfg: "calibration_service (frame (example_world ''front_12mm'')) = Some 0"
    "calibrator_working_sensor_name (services (example_world ''front_12mm'') 0) =
       this_lane_calibration_working_sensor_name example_pipeline"
    by (simp_all add: example_defs)
  from example_run_12mm run have "CalibrationUpdate \<in> set (called (trace s'))" by simp
  with other_sensor_skips_lane_stages[OF run other] run other cfg show ?thesis by blast
qed

text \<open>
  C2. On a frame of the calibration-working sensor, when the lane detector is called and
  reports failure, \<^verbatim>\<open>Perception\<close> returns false, that call is the last thing it did,
  and no stage of the obstacle pipeline (prediction, detection, feature extraction,
  association, transform, postprocessing, tracking) was called.
\<close>

theorem lane_detection_failure_returns_before_obstacle_stages:
  assumes run: "Perception ex this (initially w) = (r, s')"
    and working: "this_lane_calibration_working_sensor_name this = data_provider_sensor_name (frame w)"
    and detector: "this_lane_detector this = Some p"
    and invoked: "Call LaneDetect w1 \<in> set (trace s')"
    and failed: "\<not> fst (lane_Detect p w1)"
  shows "r = Some (Returned False) \<and> last (trace s') = Call LaneDetect w1 \<and>
         TrackerPredict \<notin> set (called (trace s')) \<and> ObstacleDetect \<notin> set (called (trace s')) \<and>
         FeatureExtract \<notin> set (called (trace s')) \<and> TrackerAssociate2D \<notin> set (called (trace s')) \<and>
         ObstacleTransform \<notin> set (called (trace s')) \<and>
         (\<forall>b. ObstaclePostprocess b \<notin> set (called (trace s'))) \<and>
         TrackerAssociate3D \<notin> set (called (trace s')) \<and> TrackerTrack \<notin> set (called (trace s'))"
proof -
  have rf: "reports_failure this (Call LaneDetect w1)"
    using detector failed by (simp add: reports_failure_def stage_fn_of_def)
  from failed_call_is_last[OF run invoked rf]
  have *: "r = Some (Returned False)" "trace s' \<noteq> []" "last (trace s') = Call LaneDetect w1"
    by simp_all
  then have le: "lane_event (last (trace s'))" by (simp add: lane_event_def)
  from last_not_lane_means_no_obstacle[OF run *(2) le] * show ?thesis
    by auto
qed

theorem lane_detection_failure_returns_before_obstacle_stages_witness:
  "\<exists>r s'. Perception example_externals (example_pipeline\<lparr>this_lane_detector := Some failing_lane_detector\<rparr>)
            (initially (example_world ''front_6mm'')) = (r, s') \<and>
     this_lane_calibration_working_sensor_name (example_pipeline\<lparr>this_lane_detector := Some failing_lane_detector\<rparr>) =
       data_provider_sensor_name (frame (example_world ''front_6mm'')) \<and>
     Call LaneDetect (example_world ''front_6mm'') \<in> set (trace s') \<and>
     \<not> fst (lane_Detect failing_lane_detector (example_world ''front_6mm'')) \<and>
     r = Some (Returned False) \<and> TrackerPredict \<notin> set (called (trace s'))"
proof -
  let ?P = "example_pipeline\<lparr>this_lane_detector := Some failing_lane_detector\<rparr>"
  obtain r s' where run: "Perception example_externals ?P (initially (example_world ''front_6mm'')) = (r, s')"
    by (cases "Perception example_externals ?P (initially (example_world ''front_6mm''))")
  have working: "this_lane_calibration_working_sensor_name ?P =
       data_provider_sensor_name (frame (example_world ''front_6mm''))"
    by (simp add: example_defs)
  have detector: "this_lane_detector ?P = Some failing_lane_detector" by simp
  have "trace (snd (Perception example_externals ?P (initially (example_world ''front_6mm'')))) =
          [SetDeviceId 0, Call LaneDetect (example_world ''front_6mm'')]"
    by (simp add: Perception_unfold example_defs statement_defs failing_lane_detector_def failing_def)
  with run have invoked: "Call LaneDetect (example_world ''front_6mm'') \<in> set (trace s')" by simp
  have failed: "\<not> fst (lane_Detect failing_lane_detector (example_world ''front_6mm''))"
    by (simp add: failing_lane_detector_def failing_def)
  from lane_detection_failure_returns_before_obstacle_stages[OF run working detector invoked failed]
    run working invoked failed
  show ?thesis by blast
qed

text \<open>
  C4, as the claim states it, fails for the calibration update: line 324 calls
  \<^verbatim>\<open>Update\<close> as a statement and reads no result. In the example deployment with a
  calibration that reports failure, the update is called on a frame of the working sensor
  and reports failure, and \<^verbatim>\<open>Perception\<close> goes on through lane 3D postprocessing and
  every obstacle stage and returns true.
\<close>

theorem calibration_update_failure_is_ignored:
  "this_lane_calibration_working_sensor_name example_pipeline =
     data_provider_sensor_name (frame (example_world ''front_6mm'')) \<and>
   Call CalibrationUpdate (example_world ''front_6mm'') \<in>
     set (trace (snd (Perception failing_calibration example_pipeline (initially (example_world ''front_6mm''))))) \<and>
   \<not> fst (Update (calibrate failing_calibration) (frame (example_world ''front_6mm''))
            (services (example_world ''front_6mm'') 0)) \<and>
   fst (Perception failing_calibration example_pipeline (initially (example_world ''front_6mm''))) =
     Some (Returned True) \<and>
   called (trace (snd (Perception failing_calibration example_pipeline (initially (example_world ''front_6mm''))))) =
     [LaneDetect, LaneProcess2D, CalibrationUpdate, LaneProcess3D, TrackerPredict, ObstacleDetect,
      TrackerAssociate2D, ObstacleTransform, ObstaclePostprocess True, TrackerAssociate3D, TrackerTrack]"
  by (simp add: Perception_unfold example_defs statement_defs failing_calibration_def)

text \<open>
  C4, amended. On a frame of the calibration-working sensor, lane detection, lane 2D
  postprocessing and lane 3D postprocessing are each a point of failure: when one of them
  is called and reports failure, \<^verbatim>\<open>Perception\<close> returns false and that call is the last
  thing it did. The calibration update between them is a plain statement. It never makes
  \<^verbatim>\<open>Perception\<close> return; whenever it is called, the very next call is lane 3D
  postprocessing, on the world the update left; and what it reports is not read: with any
  other calibration that computes the same geometry and writes the same to the frame,
  whatever status it reports, \<^verbatim>\<open>Perception\<close> gives the same result and the same final
  state.
\<close>

theorem lane_stage_failures_return_at_once:
  assumes run: "Perception ex this (initially w) = (r, s')"
    and working: "this_lane_calibration_working_sensor_name this = data_provider_sensor_name (frame w)"
  shows "(\<forall>p w1. this_lane_detector this = Some p \<and> Call LaneDetect w1 \<in> set (trace s') \<and>
                  \<not> fst (lane_Detect p w1) \<longrightarrow>
            r = Some (Returned False) \<and> last (trace s') = Call LaneDetect w1) \<and>
         (\<forall>p w1. this_lane_postprocessor this = Some p \<and> Call LaneProcess2D w1 \<in> set (trace s') \<and>
                  \<not> fst (Process2D p w1) \<longrightarrow>
            r = Some (Returned False) \<and> last (trace s') = Call LaneProcess2D w1) \<and>
         (\<forall>p w1. this_lane_postprocessor this = Some p \<and> Call LaneProcess3D w1 \<in> set (trace s') \<and>
                  \<not> fst (Process3D p w1) \<longrightarrow>
            r = Some (Returned False) \<and> last (trace s') = Call LaneProcess3D w1) \<and>
         (\<forall>t b. fst (calibration_service_Update ex t) \<noteq> Some (Returned b)) \<and>
         (\<forall>w1. Call CalibrationUpdate w1 \<in> set (trace s') \<longrightarrow>
            (\<exists>pre post. trace s' =
               pre @ Call CalibrationUpdate w1 # Call LaneProcess3D (after_update ex w1) # post)) \<and>
         (\<forall>ex'. footprint ex' = footprint ex \<and> update_writes ex' = update_writes ex \<and>
                (\<forall>l g. snd (calibrate ex' l g) = snd (calibrate ex l g)) \<longrightarrow>
            Perception ex' this (initially w) = (r, s'))"
proof -
  have 1: "r = Some (Returned False) \<and> last (trace s') = Call LaneDetect w1"
    if "this_lane_detector this = Some p" "Call LaneDetect w1 \<in> set (trace s')" "\<not> fst (lane_Detect p w1)"
    for p w1
  proof -
    have "reports_failure this (Call LaneDetect w1)"
      using that by (simp add: reports_failure_def stage_fn_of_def)
    with failed_call_is_last[OF run that(2)] show ?thesis by simp
  qed
  have 2: "r = Some (Returned False) \<and> last (trace s') = Call LaneProcess2D w1"
    if "this_lane_postprocessor this = Some p" "Call LaneProcess2D w1 \<in> set (trace s')" "\<not> fst (Process2D p w1)"
    for p w1
  proof -
    have "reports_failure this (Call LaneProcess2D w1)"
      using that by (simp add: reports_failure_def stage_fn_of_def)
    with failed_call_is_last[OF run that(2)] show ?thesis by simp
  qed
  have 3: "r = Some (Returned False) \<and> last (trace s') = Call LaneProcess3D w1"
    if "this_lane_postprocessor this = Some p" "Call LaneProcess3D w1 \<in> set (trace s')" "\<not> fst (Process3D p w1)"
    for p w1
  proof -
    have "reports_failure this (Call LaneProcess3D w1)"
      using that by (simp add: reports_failure_def stage_fn_of_def)
    with failed_call_is_last[OF run that(2)] show ?thesis by simp
  qed
  have 5: "\<exists>pre post. trace s' =
               pre @ Call CalibrationUpdate w1 # Call LaneProcess3D (after_update ex w1) # post"
    if "Call CalibrationUpdate w1 \<in> set (trace s')" for w1
    using Perception_update_is_followed[OF run working] that
    unfolding update_is_followed_def by blast
  have 6: "Perception ex' this (initially w) = (r, s')"
    if "footprint ex' = footprint ex" "\<forall>l g. snd (calibrate ex' l g) = snd (calibrate ex l g)"
      "update_writes ex' = update_writes ex" for ex'
    using Perception_status_unread[OF that] run by simp
  from 1 2 3 Update_never_returns 5 6 show ?thesis by blast
qed

theorem lane_stage_failures_return_at_once_witness:
  "\<exists>r s'. Perception example_externals
             (example_pipeline\<lparr>this_lane_postprocessor := Some failing_lane_postprocessor_3D\<rparr>)
             (initially (example_world ''front_6mm'')) = (r, s') \<and>
     this_lane_calibration_working_sensor_name
       (example_pipeline\<lparr>this_lane_postprocessor := Some failing_lane_postprocessor_3D\<rparr>) =
       data_provider_sensor_name (frame (example_world ''front_6mm'')) \<and>
     Call LaneProcess3D (example_world ''front_6mm'') \<in> set (trace s') \<and>
     \<not> fst (Process3D failing_lane_postprocessor_3D (example_world ''front_6mm'')) \<and>
     r = Some (Returned False) \<and> last (trace s') = Call LaneProcess3D (example_world ''front_6mm'') \<and>
     Call CalibrationUpdate (example_world ''front_6mm'') \<in> set (trace s') \<and>
     (\<exists>pre post. trace s' = pre @ Call CalibrationUpdate (example_world ''front_6mm'') #
          Call LaneProcess3D (after_update example_externals (example_world ''front_6mm'')) # post) \<and>
     footprint failing_calibration = footprint example_externals \<and>
     update_writes failing_calibration = update_writes example_externals \<and>
     (\<forall>l g. snd (calibrate failing_calibration l g) = snd (calibrate example_externals l g)) \<and>
     Perception failing_calibration
       (example_pipeline\<lparr>this_lane_postprocessor := Some failing_lane_postprocessor_3D\<rparr>)
       (initially (example_world ''front_6mm'')) = (r, s')"
proof -
  let ?P = "example_pipeline\<lparr>this_lane_postprocessor := Some failing_lane_postprocessor_3D\<rparr>"
  obtain r s' where run: "Perception example_externals ?P (initially (example_world ''front_6mm'')) = (r, s')"
    by (cases "Perception example_externals ?P (initially (example_world ''front_6mm''))")
  have working: "this_lane_calibration_working_sensor_name ?P =
       data_provider_sensor_name (frame (example_world ''front_6mm''))"
    by (simp add: example_defs)
  have "Call LaneProcess3D (example_world ''front_6mm'') \<in>
          set (trace (snd (Perception example_externals ?P (initially (example_world ''front_6mm'')))))"
    by (simp add: Perception_unfold example_defs statement_defs failing_lane_postprocessor_3D_def failing_def
          fun_upd_idem)
  with run have invoked: "Call LaneProcess3D (example_world ''front_6mm'') \<in> set (trace s')" by simp
  have "Call CalibrationUpdate (example_world ''front_6mm'') \<in>
          set (trace (snd (Perception example_externals ?P (initially (example_world ''front_6mm'')))))"
    by (simp add: Perception_unfold example_defs statement_defs failing_lane_postprocessor_3D_def failing_def
          fun_upd_idem)
  with run have updated: "Call CalibrationUpdate (example_world ''front_6mm'') \<in> set (trace s')" by simp
  have failed: "\<not> fst (Process3D failing_lane_postprocessor_3D (example_world ''front_6mm''))"
    by (simp add: failing_lane_postprocessor_3D_def failing_def)
  have pp: "this_lane_postprocessor ?P = Some failing_lane_postprocessor_3D" by simp
  have same: "footprint failing_calibration = footprint example_externals"
    "update_writes failing_calibration = update_writes example_externals"
    "\<forall>l g. snd (calibrate failing_calibration l g) = snd (calibrate example_externals l g)"
    by (simp_all add: failing_calibration_def example_externals_def)
  note inst = lane_stage_failures_return_at_once[OF run working]
  from inst pp invoked failed
  have a: "r = Some (Returned False) \<and> last (trace s') = Call LaneProcess3D (example_world ''front_6mm'')"
    by blast
  from inst updated
  have b: "\<exists>pre post. trace s' = pre @ Call CalibrationUpdate (example_world ''front_6mm'') #
          Call LaneProcess3D (after_update example_externals (example_world ''front_6mm'')) # post"
    by blast
  from inst same
  have c: "Perception failing_calibration ?P (initially (example_world ''front_6mm'')) = (r, s')"
    by blast
  from run working invoked failed a updated b same c show ?thesis by blast
qed

text \<open>
  C6. Whenever 2D association is called, it is called on a world in which every entry of
  the frame's detected objects is an object whose camera supplement carries the frame's
  sensor name.
\<close>

theorem detected_objects_are_stamped_before_association:
  assumes run: "Perception ex this (initially w) = (r, s')"
    and invoked: "Call TrackerAssociate2D w1 \<in> set (trace s')"
  shows "\<forall>a \<in> set (detected_objects (frame w1)).
           \<exists>ob. objects w1 a = Some ob \<and>
                camera_supplement_sensor_name ob = data_provider_sensor_name (frame w1)"
proof -
  have "sensor_names_set w1"
  proof (cases "this_name_intrinsic_map this (data_provider_sensor_name (frame w))")
    case None
    with run invoked show ?thesis by (auto simp: Perception_unfold initially_def)
  next
    case (Some k)
    define s1 where "s1 = (initially w)\<lparr>trace := trace (initially w) @ [SetDeviceId (gpu_id (this_perception_param this))],
                     world := (world (initially w))\<lparr>frame := (frame (world (initially w)))\<lparr>camera_k_matrix := k\<rparr>\<rparr>\<rparr>"
    have s1: "trace s1 = [SetDeviceId (gpu_id (this_perception_param this))]"
      by (simp add: s1_def initially_def)
    show ?thesis
    proof (cases "calibration_service (frame w) = None")
      case True
      with run invoked Some show ?thesis by (auto simp: Perception_unfold initially_def Let_def)
    next
      case False
      obtain r2 s2 where l: "lane_or_sync ex this s1 = (r2, s2)" by (cases "lane_or_sync ex this s1")
      from behaves_lane_or_sync[of lane_event ex this] l
      obtain lane where lane: "trace s2 = trace s1 @ lane" "\<forall>e \<in> set lane. lane_event e"
        unfolding behaves_def by blast
      then have s2: "Call TrackerAssociate2D w1 \<notin> set (trace s2)"
        using s1 by (auto simp: lane_event_def)
      show ?thesis
      proof (cases r2)
        case (Some e)
        with run \<open>this_name_intrinsic_map this _ = Some k\<close> False l
        have "s' = s2" by (simp add: Perception_unfold Let_def s1_def initially_def)
        with s2 invoked show ?thesis by simp
      next
        case None
        obtain r3 s3 where o: "run (obstacle_block ex this) s2 = (r3, s3)"
          by (cases "run (obstacle_block ex this) s2")
        from run \<open>this_name_intrinsic_map this _ = Some k\<close> False l None o
        have "s' = s3" by (auto simp: Perception_unfold Let_def s1_def initially_def split: option.splits)
        with obstacle_block_associate2D[OF o _ s2] invoked show ?thesis by simp
      qed
    qed
  qed
  then show ?thesis by (simp add: sensor_names_set_def)
qed


theorem detected_objects_are_stamped_before_association_witness:
  "\<exists>r s' w1. Perception example_externals example_pipeline (initially (example_world ''front_12mm'')) = (r, s') \<and>
     Call TrackerAssociate2D w1 \<in> set (trace s') \<and>
     detected_objects (frame w1) = [1] \<and>
     (\<exists>ob. objects w1 1 = Some ob \<and> camera_supplement_sensor_name ob = ''front_12mm'')"
proof -
  define w1 where "w1 = \<lparr>frame = (example_frame ''front_12mm'')\<lparr>detected_objects := [1]\<rparr>,
     objects = [1 \<mapsto> example_object\<lparr>camera_supplement_sensor_name := ''front_12mm''\<rparr>],
     services = (\<lambda>a. \<lparr>calibrator_working_sensor_name = ''front_6mm'', geometry = undefined\<rparr>),
     plugins = undefined\<rparr>"
  obtain r s' where run: "Perception example_externals example_pipeline (initially (example_world ''front_12mm'')) = (r, s')"
    by (cases "Perception example_externals example_pipeline (initially (example_world ''front_12mm''))")
  have "Call TrackerAssociate2D w1 \<in>
          set (trace (snd (Perception example_externals example_pipeline (initially (example_world ''front_12mm'')))))"
    by (simp add: Perception_unfold example_defs statement_defs w1_def fun_upd_idem)
  with run have invoked: "Call TrackerAssociate2D w1 \<in> set (trace s')" by simp
  have d: "detected_objects (frame w1) = [1]" "data_provider_sensor_name (frame w1) = ''front_12mm''"
    by (simp_all add: w1_def example_defs)
  from detected_objects_are_stamped_before_association[OF run invoked] d
  have "\<exists>ob. objects w1 1 = Some ob \<and> camera_supplement_sensor_name ob = ''front_12mm''"
    by simp
  with run invoked d show ?thesis by blast
qed

text \<open>
  C5. When \<^verbatim>\<open>Perception\<close> returns true, every tracked object of the frame has its
  anchor point equal to its center, bit for bit, and a polygon that is not empty.
\<close>

theorem tracked_objects_anchored_at_center:
  assumes "Perception ex this (initially w) = (Some (Returned True), s')"
  shows "\<forall>a \<in> set (tracked_objects (frame (world s'))).
           \<exists>ob. objects (world s') a = Some ob \<and> anchor_point ob = center ob \<and> polygon ob \<noteq> []"
proof -
  from Perception_returns_true[OF assms] obtain t where
    "fill_polygon_and_set_anchor_point ex t = (None, s')" ..
  then show ?thesis by (rule fill_polygon_and_set_anchor_point_result)
qed

theorem tracked_objects_anchored_at_center_witness:
  "\<exists>s'. Perception example_externals example_pipeline (initially (example_world ''front_6mm'')) =
           (Some (Returned True), s') \<and>
     tracked_objects (frame (world s')) = [1] \<and>
     anchor_point example_object \<noteq> center example_object \<and>
     (\<exists>ob. objects (world s') 1 = Some ob \<and> anchor_point ob = center ob \<and> polygon ob \<noteq> [])"
proof -
  obtain r s' where run: "Perception example_externals example_pipeline (initially (example_world ''front_6mm'')) = (r, s')"
    by (cases "Perception example_externals example_pipeline (initially (example_world ''front_6mm''))")
  with example_run_6mm have r: "r = Some (Returned True)" by simp
  have "tracked_objects (frame (world (snd (Perception example_externals example_pipeline
          (initially (example_world ''front_6mm'')))))) = [1]"
    by (simp add: Perception_unfold example_defs statement_defs)
  with run have tr: "tracked_objects (frame (world s')) = [1]" by simp
  have ne: "anchor_point example_object \<noteq> center example_object"
    by (simp add: example_object_def)
  from tracked_objects_anchored_at_center[of example_externals example_pipeline "example_world ''front_6mm''" s']
    run r tr
  have "\<exists>ob. objects (world s') 1 = Some ob \<and> anchor_point ob = center ob \<and> polygon ob \<noteq> []"
    by simp
  with run r tr ne show ?thesis by blast
qed

text \<open>
  C8. Whenever \<^verbatim>\<open>Init\<close> initialises the tracker, the image width and height it passes
  are those of the camera model of the last entry of the detector parameters, the model
  resolved in the last round of the detector loop, however many entries there are.
\<close>

theorem tracker_is_sized_by_last_camera:
  assumes run: "Init env options (new_InitState ps) = (r, s')"
    and call: "InitCall TrackerPlugin opts \<in> set (init_log s')"
  shows "detector_param (param s') \<noteq> [] \<and>
         (\<exists>m. GetUndistortCameraModel env (camera_name (last (detector_param (param s')))) = Some m \<and>
              image_width opts = get_width m \<and> image_height opts = get_height m)"
proof -
  have "no_tracker_yet (new_InitState ps)"
    by (simp add: no_tracker_yet_def new_InitState_def)
  with Init_sized_by_last_camera[of env options] run have "sized_by_last_camera env s'"
    unfolding establishes_def by (fastforce split: option.splits)
  with call show ?thesis by (simp add: sized_by_last_camera_def)
qed

theorem tracker_is_sized_by_last_camera_witness:
  "\<exists>r s' opts. Init example_env example_options (new_InitState undefined) = (r, s') \<and>
     InitCall TrackerPlugin opts \<in> set (init_log s') \<and>
     map camera_name (detector_param (param s')) = [''front_6mm'', ''front_12mm''] \<and>
     GetUndistortCameraModel example_env ''front_12mm'' =
       Some \<lparr>get_width = 1280, get_height = 720, get_intrinsic_params = undefined\<rparr> \<and>
     image_width opts = 1280 \<and> image_height opts = 720"
proof -
  obtain r s' where run: "Init example_env example_options (new_InitState undefined) = (r, s')"
    by (cases "Init example_env example_options (new_InitState undefined)")
  have "tracker_options (init_log s') \<noteq> []"
    using example_Init_tracker run by auto
  then obtain opts where "opts \<in> set (tracker_options (init_log s'))"
    by (cases "tracker_options (init_log s')") auto
  then have call: "InitCall TrackerPlugin opts \<in> set (init_log s')"
    by (simp add: in_tracker_options)
  have "param s' = example_param"
    using example_Init run by (simp add: param_def example_pipeline_def)
  then have cams: "map camera_name (detector_param (param s')) = [''front_6mm'', ''front_12mm'']"
    "camera_name (last (detector_param (param s'))) = ''front_12mm''"
    by (simp_all add: example_param_def)
  have cam: "GetUndistortCameraModel example_env ''front_12mm'' =
       Some \<lparr>get_width = 1280, get_height = 720, get_intrinsic_params = undefined\<rparr>"
    by (simp add: example_env_def example_camera_def)
  from tracker_is_sized_by_last_camera[OF run call] cams cam
  have "image_width opts = 1280 \<and> image_height opts = 720" by simp
  with run call cams cam show ?thesis
    by - (rule exI[of _ r], rule exI[of _ s'], rule exI[of _ opts], simp)
qed

text \<open>
  C7. A configuration without a feature block is not an initialisation error: the feature
  block of \<^verbatim>\<open>Init\<close> falls through with the extractor null, an \<^verbatim>\<open>Init\<close> that
  returns true on such a configuration leaves the extractor null, and there is such an
  \<^verbatim>\<open>Init\<close> whose pipeline then processes a frame and returns true. With the
  extractor null, \<^verbatim>\<open>Perception\<close> never calls the extraction stage. With an extractor,
  an extraction that is called and reports failure makes \<^verbatim>\<open>Perception\<close> return false
  at once.
\<close>

theorem missing_feature_extractor_is_skipped:
  "(feature_param (param s) = None \<longrightarrow>
      init_feature_extractor env work_root s = (None, s\<lparr>self := (self s)\<lparr>this_extractor := None\<rparr>\<rparr>)) \<and>
   (Init env options (new_InitState ps) = (Some (Returned True), s') \<and> feature_param (param s') = None \<longrightarrow>
      this_extractor (self s') = None) \<and>
   (\<exists>env options ps s' ex w t'.
      Init env options (new_InitState ps) = (Some (Returned True), s') \<and>
      feature_param (param s') = None \<and>
      Perception ex (self s') (initially w) = (Some (Returned True), t')) \<and>
   (this_extractor this = None \<and> Perception ex this (initially w) = (r, t') \<longrightarrow>
      FeatureExtract \<notin> set (called (trace t'))) \<and>
   (this_extractor this = Some p \<and> Perception ex this (initially w) = (r, t') \<and>
    Call FeatureExtract w1 \<in> set (trace t') \<and> \<not> fst (Extract p w1) \<longrightarrow>
      r = Some (Returned False) \<and> last (trace t') = Call FeatureExtract w1)"
proof -
  have 1: "feature_param (param s) = None \<longrightarrow>
      init_feature_extractor env work_root s = (None, s\<lparr>self := (self s)\<lparr>this_extractor := None\<rparr>\<rparr>)"
    by (simp add: init_feature_extractor_def)
  have 2: "this_extractor (self s') = None"
    if "Init env options (new_InitState ps) = (Some (Returned True), s')" "feature_param (param s') = None"
    using Init_extractor_as_configured[of env options] that
    unfolding establishes_def extractor_as_configured_def by fastforce
  have 3: "\<exists>env options ps s' ex w t'.
      Init env options (new_InitState ps) = (Some (Returned True), s') \<and>
      feature_param (param s') = None \<and>
      Perception ex (self s') (initially w) = (Some (Returned True), t')"
  proof -
    obtain r s' where i: "Init example_env example_options (new_InitState undefined) = (r, s')"
      by (cases "Init example_env example_options (new_InitState undefined)")
    with example_Init have r: "r = Some (Returned True)" and s': "self s' = example_pipeline"
      by simp_all
    then have f: "feature_param (param s') = None"
      by (simp add: param_def example_pipeline_def example_param_def)
    obtain r2 t' where p: "Perception example_externals example_pipeline
        (initially (example_world ''front_12mm'')) = (r2, t')"
      by (cases "Perception example_externals example_pipeline (initially (example_world ''front_12mm''))")
    with example_run_12mm have "r2 = Some (Returned True)" by simp
    with i r s' f p show ?thesis by metis
  qed
  have 4: "FeatureExtract \<notin> set (called (trace t'))"
    if "this_extractor this = None" "Perception ex this (initially w) = (r, t')"
    using no_extractor_no_extraction[OF that(2,1)] .
  have 5: "r = Some (Returned False) \<and> last (trace t') = Call FeatureExtract w1"
    if "this_extractor this = Some p" "Perception ex this (initially w) = (r, t')"
      "Call FeatureExtract w1 \<in> set (trace t')" "\<not> fst (Extract p w1)"
  proof -
    have "reports_failure this (Call FeatureExtract w1)"
      using that(1,4) by (simp add: reports_failure_def stage_fn_of_def)
    with failed_call_is_last[OF that(2,3)] show ?thesis by simp
  qed
  from 1 2 3 4 5 show ?thesis by blast
qed

theorem missing_feature_extractor_is_skipped_witness:
  "\<exists>s' r t' r2 t2 w1.
     Init example_env example_options (new_InitState undefined) = (Some (Returned True), s') \<and>
     feature_param (param s') = None \<and> this_extractor (self s') = None \<and>
     Perception example_externals (self s') (initially (example_world ''front_12mm'')) = (r, t') \<and>
     r = Some (Returned True) \<and> FeatureExtract \<notin> set (called (trace t')) \<and>
     Perception example_externals (example_pipeline\<lparr>this_extractor := Some failing_extractor\<rparr>)
       (initially (example_world ''front_12mm'')) = (r2, t2) \<and>
     Call FeatureExtract w1 \<in> set (trace t2) \<and> \<not> fst (Extract failing_extractor w1) \<and>
     r2 = Some (Returned False)"
proof -
  obtain r0 s' where i: "Init example_env example_options (new_InitState undefined) = (r0, s')"
    by (cases "Init example_env example_options (new_InitState undefined)")
  with example_Init have r0: "r0 = Some (Returned True)" and s': "self s' = example_pipeline"
    by simp_all
  then have f: "feature_param (param s') = None"
    by (simp add: param_def example_pipeline_def example_param_def)
  obtain r t' where p: "Perception example_externals (self s') (initially (example_world ''front_12mm'')) = (r, t')"
    by (cases "Perception example_externals (self s') (initially (example_world ''front_12mm''))")
  with example_run_12mm s' have r: "r = Some (Returned True)" by simp
  note absent = missing_feature_extractor_is_skipped
    [of s' example_env "[]" example_options undefined s' "self s'" example_externals
        "example_world ''front_12mm''" r t']
  from absent i r0 f have e: "this_extractor (self s') = None" by blast
  with absent p have n: "FeatureExtract \<notin> set (called (trace t'))" by blast
  let ?P = "example_pipeline\<lparr>this_extractor := Some failing_extractor\<rparr>"
  obtain r2 t2 where p2: "Perception example_externals ?P (initially (example_world ''front_12mm'')) = (r2, t2)"
    by (cases "Perception example_externals ?P (initially (example_world ''front_12mm''))")
  have "called (trace (snd (Perception example_externals ?P (initially (example_world ''front_12mm''))))) =
          [CalibrationUpdate, TrackerPredict, ObstacleDetect, FeatureExtract]"
    by (simp add: Perception_unfold example_defs statement_defs failing_extractor_def failing_def)
  with p2 have "FeatureExtract \<in> set (called (trace t2))" by simp
  then obtain w1 where w1: "Call FeatureExtract w1 \<in> set (trace t2)"
    unfolding in_called by blast
  have fl: "\<not> fst (Extract failing_extractor w1)"
    by (simp add: failing_extractor_def failing_def)
  have x: "this_extractor ?P = Some failing_extractor" by simp
  from missing_feature_extractor_is_skipped
    [of s' example_env "[]" example_options undefined s' ?P example_externals
        "example_world ''front_12mm''" r2 t2 failing_extractor w1] x p2 w1 fl
  have r2: "r2 = Some (Returned False)" by blast
  from i r0 f e p r n p2 w1 fl r2 show ?thesis by blast
qed

end
